theory Spec2Isabelle
  imports Main
begin

section \<open>JavaScript string and number primitives used by the driver\<close>

text \<open>
  The driver (\<^verbatim>\<open>UG96.js\<close>) works on JavaScript strings. A string is a list of
  characters; indices and lengths handed to the string methods are JavaScript numbers
  and are modelled as \<open>int\<close>, because the driver computes them by subtraction and
  they can leave the range of the string.
\<close>

definition CRLF :: string where
  "CRLF = [CHR 0x0D, CHR 0x0A]"

fun startsWith :: "string \<Rightarrow> string \<Rightarrow> bool" where
  "startsWith s [] = True"
| "startsWith [] (p # ps) = False"
| "startsWith (c # cs) (p # ps) = (c = p \<and> startsWith cs ps)"

text \<open>\<^verbatim>\<open>s.indexOf(sub)\<close>: the first position where \<open>sub\<close> occurs, or \<open>-1\<close>.\<close>

fun indexOf_from :: "nat \<Rightarrow> string \<Rightarrow> string \<Rightarrow> int" where
  "indexOf_from i [] sub = (if sub = [] then int i else - 1)"
| "indexOf_from i (c # cs) sub =
     (if startsWith (c # cs) sub then int i else indexOf_from (Suc i) cs sub)"

definition indexOf :: "string \<Rightarrow> string \<Rightarrow> int" where
  "indexOf s sub = indexOf_from 0 s sub"

text \<open>
  \<^verbatim>\<open>s.substring(a, b)\<close> clamps both arguments to \<open>[0, s.length]\<close> and swaps
  them when \<open>a > b\<close>.
\<close>

definition clamp_index :: "string \<Rightarrow> int \<Rightarrow> nat" where
  "clamp_index s i = nat (min (max i 0) (int (length s)))"

definition substring :: "string \<Rightarrow> int \<Rightarrow> int \<Rightarrow> string" where
  "substring s a b =
     (let x = clamp_index s a; y = clamp_index s b
      in take (max x y - min x y) (drop (min x y) s))"

text \<open>
  \<^verbatim>\<open>s.substr(start, n)\<close>: a negative \<open>start\<close> counts from the end, a
  \<open>start\<close> past the end gives the empty string, a negative \<open>n\<close> gives the empty
  string. \<^verbatim>\<open>s.substr(start)\<close> runs to the end of the string.
\<close>

definition substr_start :: "string \<Rightarrow> int \<Rightarrow> nat" where
  "substr_start s start =
     (if start < 0 then nat (max (int (length s) + start) 0)
      else nat (min start (int (length s))))"

definition substr :: "string \<Rightarrow> int \<Rightarrow> int \<Rightarrow> string" where
  "substr s start n = take (nat n) (drop (substr_start s start) s)"

definition substr_from :: "string \<Rightarrow> int \<Rightarrow> string" where
  "substr_from s start = drop (substr_start s start) s"

text \<open>\<^verbatim>\<open>s.split(",")\<close>: never the empty array; \<^verbatim>\<open>"".split(",")\<close> is \<^verbatim>\<open>[""]\<close>.\<close>

fun js_split :: "char \<Rightarrow> string \<Rightarrow> string list" where
  "js_split sep [] = [[]]"
| "js_split sep (c # cs) =
     (if c = sep then [] # js_split sep cs
      else (case js_split sep cs of
              [] \<Rightarrow> [[c]]
            | p # ps \<Rightarrow> (c # p) # ps))"

text \<open>An array read \<^verbatim>\<open>a[i]\<close>: \<open>None\<close> is \<^verbatim>\<open>undefined\<close>.\<close>

definition js_index :: "'a list \<Rightarrow> nat \<Rightarrow> 'a option" where
  "js_index xs i = (if i < length xs then Some (xs ! i) else None)"

text \<open>
  An optional string used where JavaScript wants a string (concatenation, property
  name): \<^verbatim>\<open>undefined\<close> becomes the text \<^verbatim>\<open>"undefined"\<close>.
\<close>

definition js_str :: "string option \<Rightarrow> string" where
  "js_str v = (case v of None \<Rightarrow> ''undefined'' | Some s \<Rightarrow> s)"

text \<open>Truthiness of an optional string: defined and not empty.\<close>

definition truthy :: "string option \<Rightarrow> bool" where
  "truthy v = (case v of None \<Rightarrow> False | Some s \<Rightarrow> s \<noteq> [])"

subsection \<open>Numbers and their decimal text\<close>

definition digit_char :: "nat \<Rightarrow> char" where
  "digit_char d = (if d < 10 then ''0123456789'' ! d else CHR ''?'')"

definition is_digit :: "char \<Rightarrow> bool" where
  "is_digit c = (48 \<le> (of_char c :: nat) \<and> (of_char c :: nat) \<le> 57)"

definition digit_val :: "char \<Rightarrow> nat" where
  "digit_val c = of_char c - 48"

fun dec_nat :: "nat \<Rightarrow> string" where
  "dec_nat n = (if n < 10 then [digit_char n] else dec_nat (n div 10) @ [digit_char (n mod 10)])"

declare dec_nat.simps [simp del]

text \<open>Number to string, as string concatenation does it for an integer.\<close>

definition num_to_string :: "int \<Rightarrow> string" where
  "num_to_string n = (if n < 0 then CHR ''-'' # dec_nat (nat (- n)) else dec_nat (nat n))"

definition digits_val :: "string \<Rightarrow> nat" where
  "digits_val s = foldl (\<lambda>a c. 10 * a + digit_val c) 0 s"

definition is_space :: "char \<Rightarrow> bool" where
  "is_space c = (c = CHR '' '' \<or> c = CHR 0x09 \<or> c = CHR 0x0A \<or> c = CHR 0x0B \<or> c = CHR 0x0C \<or> c = CHR 0x0D)"

definition trim :: "string \<Rightarrow> string" where
  "trim s = rev (dropWhile is_space (rev (dropWhile is_space s)))"

text \<open>
  String to number, for the texts the modem puts in a length field: optional white
  space around an optionally signed run of decimal digits. The empty text is 0. Every
  other text is \<open>None\<close> (\<^verbatim>\<open>NaN\<close>); JavaScript also reads hexadecimal, fractional
  and exponent forms, which no header of the modem carries and which are not modelled.
\<close>

definition str_to_number :: "string \<Rightarrow> int option" where
  "str_to_number s =
     (let t = trim s in
      if t = [] then Some 0
      else (case t of
              c # ds \<Rightarrow>
                if (c = CHR ''-'' \<or> c = CHR ''+'') \<and> ds \<noteq> [] \<and> list_all is_digit ds
                then Some (if c = CHR ''-'' then - int (digits_val ds) else int (digits_val ds))
                else if list_all is_digit t then Some (int (digits_val t))
                else None
            | [] \<Rightarrow> Some 0))"

text \<open>\<^verbatim>\<open>ToInt32\<close>: wrap into the signed 32-bit range.\<close>

definition to_int32 :: "int \<Rightarrow> int" where
  "to_int32 n = (n + 2 ^ 31) mod 2 ^ 32 - 2 ^ 31"

text \<open>
  \<^verbatim>\<open>0|v\<close>, the driver's conversion of a header field to an integer:
  \<^verbatim>\<open>undefined\<close> and \<^verbatim>\<open>NaN\<close> give 0.
\<close>

definition bitor0 :: "string option \<Rightarrow> int" where
  "bitor0 v =
     (case v of
        None \<Rightarrow> 0
      | Some s \<Rightarrow> (case str_to_number s of None \<Rightarrow> 0 | Some n \<Rightarrow> to_int32 n))"

section \<open>Driver state\<close>

text \<open>
  The module keeps its state in global variables. They are gathered in one record that
  every operation takes and returns. The AT engine (\<^verbatim>\<open>require('AT')\<close>) and the timer
  functions are not part of the module: what the module asks of them is kept in the
  same record, as the table of registered handlers, the pending cancellable timers and
  the ordered trace of commands, raw writes and completion callbacks. The debug output
  (\<^verbatim>\<open>console.log\<close>, guarded by \<^verbatim>\<open>dbg\<close>) changes no state and is left out.

  An entry of \<^verbatim>\<open>socks\<close> is \<^verbatim>\<open>undefined\<close>, \<^verbatim>\<open>true\<close>, \<^verbatim>\<open>"Wait"\<close> or
  \<^verbatim>\<open>"tobeclosed"\<close>.
\<close>

datatype sockstate = Undefined | Ready | Wait | Tobeclosed

text \<open>
  What the module hands to the outside, in order. \<open>AtCmd d c t\<close>: the command \<open>c\<close> is
  given to \<^verbatim>\<open>at.cmd\<close> with response timeout \<open>t\<close> ms, after a \<^verbatim>\<open>setTimeout\<close> of
  \<open>d\<close> ms (\<open>d = 0\<close>: called directly). \<open>AtWrite\<close>: a raw \<^verbatim>\<open>at.write\<close>.
  \<open>Callback e r\<close>: the completion callback is called with error \<open>e\<close> (\<open>None\<close> is
  \<^verbatim>\<open>null\<close>) and result \<open>r\<close>. \<open>OpenSocket d sckt host port counter\<close>: a call
  of \<^verbatim>\<open>openSocket\<close> after \<open>d\<close> ms.
\<close>

datatype effect =
    AtCmd nat string nat
  | AtWrite string
  | Callback "string option" "string option"
  | OpenSocket nat nat string int nat

text \<open>The closures that \<^verbatim>\<open>send\<close> registers with the engine and the timers it arms.\<close>

datatype urc_handler = PromptHandler nat string

datatype line_handler = SendOkHandler nat | SendFailHandler nat nat | ErrorHandler nat nat

datatype timer_fn = AbortWaitingPrompt | AbortWaitingModemRsp

record driver =
  busy :: bool
  socks :: "sockstate list"
  sockData :: "string \<rightharpoonup> string"
  flowcontrol :: bool
  longlat :: string
  geoPos :: bool
  ccid :: "string option"
  at_isBusy :: bool
  at_handlers :: "string \<rightharpoonup> urc_handler"
  at_lineHandlers :: "string \<rightharpoonup> line_handler"
  timers :: "nat \<rightharpoonup> timer_fn \<times> nat"
  next_timer :: nat
  trace :: "effect list"

definition MAXSOCKETS :: nat where
  "MAXSOCKETS = 12"

text \<open>
  \<^verbatim>\<open>socks\<close> is a JavaScript array that starts empty: a read past its end is
  \<^verbatim>\<open>undefined\<close>, a write past its end extends it with holes.
\<close>

definition socks_get :: "sockstate list \<Rightarrow> nat \<Rightarrow> sockstate" where
  "socks_get ss i = (if i < length ss then ss ! i else Undefined)"

definition socks_set :: "sockstate list \<Rightarrow> nat \<Rightarrow> sockstate \<Rightarrow> sockstate list" where
  "socks_set ss i v =
     (if i < length ss then ss[i := v]
      else ss @ replicate (i - length ss) Undefined @ [v])"

text \<open>
  \<^verbatim>\<open>sockData\<close> is an array of twelve strings, read and written both with numbers
  (\<^verbatim>\<open>sockData[sckt]\<close>) and with the text of a header field
  (\<^verbatim>\<open>sockData[parms[0]]\<close>). It is a map from property names; a number names the
  property of its decimal text. A header field that names a property the array has of
  its own, such as \<^verbatim>\<open>length\<close>, is outside what the map describes.
\<close>

definition sock_key :: "nat \<Rightarrow> string" where
  "sock_key sckt = num_to_string (int sckt)"

definition sockData_init :: "string \<rightharpoonup> string" where
  "sockData_init = map_of (map (\<lambda>i. (sock_key i, [])) [0..<12])"

text \<open>\<^verbatim>\<open>sockData[key] += x\<close>: a missing property reads as \<^verbatim>\<open>undefined\<close>.\<close>

definition sockData_append :: "(string \<rightharpoonup> string) \<Rightarrow> string \<Rightarrow> string \<Rightarrow> (string \<rightharpoonup> string)" where
  "sockData_append sd key x = sd(key \<mapsto> js_str (sd key) @ x)"

definition driver_init :: driver where
  "driver_init =
     \<lparr>busy = False, socks = [], sockData = sockData_init, flowcontrol = False,
      longlat = [], geoPos = False, ccid = None, at_isBusy = False,
      at_handlers = Map.empty, at_lineHandlers = Map.empty, timers = Map.empty,
      next_timer = 0, trace = []\<rparr>"

section \<open>Reassembly of incoming data\<close>

text \<open>
  \<^verbatim>\<open>receiveHandler(line)\<close> is registered for the prefix \<^verbatim>\<open>+QIURC: "recv"\<close> and
  \<^verbatim>\<open>receiveHandler2(line)\<close> for \<^verbatim>\<open>+D\<close>. Each returns the text to hand back to the
  engine, together with the updated state.
\<close>

definition receiveHandler :: "driver \<Rightarrow> string \<Rightarrow> string \<times> driver" where
  "receiveHandler d line =
     (let colon = indexOf line CRLF in
      if colon < 0 then (line, d)
      else
        let parms = js_split CHR '','' (substring line 15 colon);
            parms0 = js_str (js_index parms 0);
            parms1 = bitor0 (js_index parms 1);
            len = int (length line) - (colon + 2)
        in if len \<ge> parms1
           then (substr_from line (colon + parms1 + 3),
                 d\<lparr>sockData := sockData_append (sockData d) parms0 (substr line (colon + 2) parms1)\<rparr>)
           else (''+D,'' @ parms0 @ '','' @ num_to_string (parms1 - len) @ '':'',
                 d\<lparr>sockData := sockData_append (sockData d) parms0 (substr line (colon + 2) len)\<rparr>))"

definition receiveHandler2 :: "driver \<Rightarrow> string \<Rightarrow> string \<times> driver" where
  "receiveHandler2 d line =
     (let colon = indexOf line '':'' in
      if colon < 0 then (line, d)
      else
        let parms = js_split CHR '','' (substring line 3 colon);
            parms0 = js_str (js_index parms 0);
            parms1 = bitor0 (js_index parms 1);
            len = int (length line) - (colon + 1)
        in if len \<ge> parms1
           then (substr_from line (colon + parms1 + 1),
                 d\<lparr>sockData := sockData_append (sockData d) parms0 (substr line (colon + 1) parms1)\<rparr>)
           else (''+D,'' @ parms0 @ '','' @ num_to_string (parms1 - len) @ '':'',
                 d\<lparr>sockData := sockData_append (sockData d) parms0 (substr line (colon + 1) len)\<rparr>))"

text \<open>The header the modem sends before \<open>n\<close> bytes for socket \<open>sckt\<close>.\<close>

definition recv_header :: "nat \<Rightarrow> nat \<Rightarrow> string" where
  "recv_header sckt n =
     ''+QIURC: '' @ [CHR 0x22] @ ''recv'' @ [CHR 0x22] @ '','' @ dec_nat sckt @ '','' @ dec_nat n @ CRLF"

text \<open>The continuation text that \<^verbatim>\<open>receiveHandler\<close> and \<^verbatim>\<open>receiveHandler2\<close> return
  for socket \<open>sckt\<close> when \<open>n\<close> bytes are still to come.\<close>

definition recv_token :: "nat \<Rightarrow> nat \<Rightarrow> string" where
  "recv_token sckt n = ''+D,'' @ dec_nat sckt @ '','' @ dec_nat n @ '':''"

definition digit_chars :: "char set" where
  "digit_chars = set ''0123456789''"

text \<open>
  Delivery of one notification in two dispatches: the header with the first \<open>k\<close> bytes
  of the payload goes to \<^verbatim>\<open>receiveHandler\<close>; what it returns, followed by the rest of
  the payload, goes to \<^verbatim>\<open>receiveHandler2\<close>, as the engine does with a returned text
  that begins with \<^verbatim>\<open>+D\<close>.
\<close>

definition receive_in_two :: "driver \<Rightarrow> nat \<Rightarrow> string \<Rightarrow> nat \<Rightarrow> string \<times> driver" where
  "receive_in_two d sckt payload k =
     (let (r, d1) = receiveHandler d (recv_header sckt (length payload) @ take k payload)
      in receiveHandler2 d1 (r @ drop k payload))"

section \<open>Socket multiplexer (\<^verbatim>\<open>netCallbacks\<close>)\<close>

definition emit :: "driver \<Rightarrow> effect list \<Rightarrow> driver" where
  "emit d es = d\<lparr>trace := trace d @ es\<rparr>"

text \<open>
  \<^verbatim>\<open>while (socks[sckt]!==undefined) sckt++;\<close> The loop ends because a read past the
  end of the array is \<^verbatim>\<open>undefined\<close>.
\<close>

function find_free :: "sockstate list \<Rightarrow> nat \<Rightarrow> nat" where
  "find_free ss sckt = (if socks_get ss sckt \<noteq> Undefined then find_free ss (Suc sckt) else sckt)"
  by pat_completeness auto
termination
  by (relation "measure (\<lambda>(ss, sckt). length ss - sckt)") (auto simp: socks_get_def split: if_splits)

declare find_free.simps [simp del]

text \<open>
  \<^verbatim>\<open>create(host, port)\<close>. With no host it prepares the server slot \<open>MAXSOCKETS\<close>.
  Otherwise it takes the first index whose entry is \<^verbatim>\<open>undefined\<close>; when that index is
  \<open>MAXSOCKETS\<close> or more it steps back by one and asks the modem to close that socket
  (\<^verbatim>\<open>"WORKAROUND closing the socket"\<close>), then marks the index \<^verbatim>\<open>"Wait"\<close>, empties its
  buffer and calls \<^verbatim>\<open>openSocket\<close>, delayed by 3 s for port 443. The response handlers of
  the two commands run later, when the engine delivers a response.
\<close>

definition create :: "driver \<Rightarrow> string option \<Rightarrow> int \<Rightarrow> nat \<times> driver" where
  "create d host port =
     (case host of
        None \<Rightarrow>
          (MAXSOCKETS,
           emit (d\<lparr>socks := socks_set (socks d) MAXSOCKETS Wait,
                   sockData := (sockData d)(sock_key MAXSOCKETS \<mapsto> [])\<rparr>)
             [AtCmd 0 (''AT+CIPSERVER=1,'' @ num_to_string port @ CRLF) 10000])
      | Some h \<Rightarrow>
          (let free = find_free (socks d) 0;
               sckt = (if free \<ge> MAXSOCKETS then free - 1 else free);
               closing = (if free \<ge> MAXSOCKETS
                          then [AtCmd 0 (''AT+QICLOSE='' @ num_to_string (int sckt) @ CRLF) 1000]
                          else [])
           in (sckt,
               emit (d\<lparr>socks := socks_set (socks d) sckt Wait,
                       sockData := (sockData d)(sock_key sckt \<mapsto> [])\<rparr>)
                 (closing @ [OpenSocket (if port = 443 then 3000 else 0) sckt h port 0]))))"

text \<open>
  \<^verbatim>\<open>recv(sckt, maxLen)\<close> returns a string, or \<open>-1\<close> to have the socket closed.
\<close>

datatype recv_result = RecvData string | RecvClose

definition recv :: "driver \<Rightarrow> nat \<Rightarrow> int \<Rightarrow> recv_result \<times> driver" where
  "recv d sckt maxLen =
     (if at_isBusy d \<or> socks_get (socks d) sckt = Wait then (RecvData [], d)
      else if truthy (sockData d (sock_key sckt)) then
        (let buf = js_str (sockData d (sock_key sckt)) in
         if int (length buf) > maxLen
         then (RecvData (substr buf 0 maxLen),
               d\<lparr>sockData := (sockData d)(sock_key sckt \<mapsto> substr_from buf maxLen)\<rparr>)
         else (RecvData buf, d\<lparr>sockData := (sockData d)(sock_key sckt \<mapsto> [])\<rparr>))
      else if socks_get (socks d) sckt = Undefined then (RecvClose, d)
      else if socks_get (socks d) sckt = Tobeclosed then (RecvClose, d)
      else (RecvData [], d))"

text \<open>
  \<^verbatim>\<open>send(sckt, data)\<close>. The two \<^verbatim>\<open>setTimeout\<close> calls get fresh timer ids; the
  handlers registered with the engine are closures over those ids, the socket and the
  data.
\<close>

definition send :: "driver \<Rightarrow> nat \<Rightarrow> string \<Rightarrow> int \<times> driver" where
  "send d sckt data =
     (if busy d \<or> at_isBusy d \<or> socks_get (socks d) sckt = Wait then (0, d)
      else if socks_get (socks d) sckt = Tobeclosed then (- 1, d)
      else if socks_get (socks d) sckt = Undefined then (- 1, d)
      else if length data > 1460 then (- 1, d)
      else
        (let idWaitingPrompt = next_timer d;
             idWaitingModemRsp = next_timer d + 1
         in (int (length data),
             emit (d\<lparr>busy := True,
                     timers := (timers d)(idWaitingPrompt \<mapsto> (AbortWaitingPrompt, 1000),
                                          idWaitingModemRsp \<mapsto> (AbortWaitingModemRsp, 1000)),
                     next_timer := next_timer d + 2,
                     at_handlers := (at_handlers d)(''>'' \<mapsto> PromptHandler idWaitingPrompt data),
                     at_lineHandlers := (at_lineHandlers d)
                        (''SEND OK'' \<mapsto> SendOkHandler idWaitingModemRsp,
                         ''SEND FAIL'' \<mapsto> SendFailHandler idWaitingModemRsp sckt,
                         ''ERROR'' \<mapsto> ErrorHandler idWaitingModemRsp sckt)\<rparr>)
               [AtWrite (''AT+QISEND='' @ num_to_string (int sckt) @ '','' @
                         num_to_string (int (length data)) @ CRLF)])))"

definition clearTimeout :: "driver \<Rightarrow> nat \<Rightarrow> driver" where
  "clearTimeout d t = d\<lparr>timers := (timers d)(t := None)\<rparr>"

definition unregister :: "driver \<Rightarrow> string \<Rightarrow> driver" where
  "unregister d prefix = d\<lparr>at_handlers := (at_handlers d)(prefix := None)\<rparr>"

definition unregisterLine :: "driver \<Rightarrow> string \<Rightarrow> driver" where
  "unregisterLine d line = d\<lparr>at_lineHandlers := (at_lineHandlers d)(line := None)\<rparr>"

definition unregister_send_lines :: "driver \<Rightarrow> driver" where
  "unregister_send_lines d =
     unregisterLine (unregisterLine (unregisterLine d ''SEND OK'') ''SEND FAIL'') ''ERROR''"

text \<open>The handler of the prompt \<^verbatim>\<open>>\<close> writes the payload.\<close>

fun run_urc_handler :: "urc_handler \<Rightarrow> driver \<Rightarrow> string \<times> driver" where
  "run_urc_handler (PromptHandler idWaitingPrompt data) d =
     ([], emit (clearTimeout (unregister d ''>'') idWaitingPrompt) [AtWrite data])"

text \<open>
  The three line handlers. In the handlers of \<^verbatim>\<open>SEND FAIL\<close> and \<^verbatim>\<open>ERROR\<close> the
  statement \<^verbatim>\<open>socks[sckt]=="tobeclosed"\<close> is a comparison: its value is computed and
  dropped.
\<close>

fun run_line_handler :: "line_handler \<Rightarrow> driver \<Rightarrow> string \<times> driver" where
  "run_line_handler (SendOkHandler idWaitingModemRsp) d =
     ([], (clearTimeout (unregister_send_lines d) idWaitingModemRsp)\<lparr>busy := False\<rparr>)"
| "run_line_handler (SendFailHandler idWaitingModemRsp sckt) d =
     (let d1 = (clearTimeout (unregister_send_lines d) idWaitingModemRsp)\<lparr>busy := False\<rparr>;
          compared = (socks_get (socks d1) sckt = Tobeclosed)
      in ([], d1))"
| "run_line_handler (ErrorHandler idWaitingModemRsp sckt) d =
     (let d1 = (clearTimeout (unregister_send_lines d) idWaitingModemRsp)\<lparr>busy := False\<rparr>;
          compared = (socks_get (socks d1) sckt = Tobeclosed)
      in ([], d1))"

text \<open>\<^verbatim>\<open>abortWaitingPrompt\<close> and \<^verbatim>\<open>abortWaitingModemRsp\<close>, run by the two timers.\<close>

fun run_timer :: "timer_fn \<Rightarrow> driver \<Rightarrow> driver" where
  "run_timer AbortWaitingPrompt d = unregister (d\<lparr>busy := False\<rparr>) ''>''"
| "run_timer AbortWaitingModemRsp d = unregister_send_lines (d\<lparr>busy := False\<rparr>)"

text \<open>
  The engine's side of the registrations: a line equal to a registered text runs that
  handler; a timer that is still pending when its delay has passed runs its function.
\<close>

definition dispatch_line :: "driver \<Rightarrow> string \<Rightarrow> driver" where
  "dispatch_line d line =
     (case at_lineHandlers d line of
        None \<Rightarrow> d
      | Some h \<Rightarrow> snd (run_line_handler h d))"

definition dispatch_prompt :: "driver \<Rightarrow> driver" where
  "dispatch_prompt d =
     (case at_handlers d ''>'' of
        None \<Rightarrow> d
      | Some h \<Rightarrow> snd (run_urc_handler h d))"

definition fire_timer :: "driver \<Rightarrow> nat \<Rightarrow> driver" where
  "fire_timer d t =
     (case timers d t of
        None \<Rightarrow> d
      | Some (f, delay) \<Rightarrow> run_timer f (d\<lparr>timers := (timers d)(t := None)\<rparr>))"

section \<open>Modem lifecycle (\<^verbatim>\<open>gprsFuncs\<close>)\<close>

text \<open>
  A response handler given to \<^verbatim>\<open>at.cmd\<close> is called with a response line, or with
  \<^verbatim>\<open>undefined\<close> (\<open>None\<close>) when the command timed out. It returns itself to be called
  with the next line, or \<^verbatim>\<open>undefined\<close>.
\<close>

datatype cb_ret = Return_cb | Return_undefined

datatype AtInitSequence =
    AT_SYNCHRO | AT_RSP_FORMAT | AT_ECHO_OFF | AT_CPIN | AT_SHOW_SIM_ID
  | AT_QUERY_SIGNAL_QUALITY | AT_PS_ATTACHMENT | AT_AUTOMATIC_OPERATOR_SELECTION
  | AT_LIST_CURRENT_OPERATORS | AT_CURRENT_OPERATOR | AT_HW_FLOW_CONTROL

text \<open>The local variables of one call of \<^verbatim>\<open>init\<close>, shared with its handler \<^verbatim>\<open>cb\<close>
  (\<open>init_s\<close> is the variable \<^verbatim>\<open>s\<close>).\<close>

record init_vars =
  atSync :: nat
  attRetry :: nat
  init_s :: AtInitSequence
  signal_quality_report :: bool

definition callback :: "driver \<Rightarrow> string option \<Rightarrow> driver" where
  "callback d err = emit d [Callback err None]"

definition cb_AT_SYNCHRO :: "init_vars \<Rightarrow> driver \<Rightarrow> string option \<Rightarrow> cb_ret \<times> init_vars \<times> driver" where
  "cb_AT_SYNCHRO v d r =
     (if r = Some ''AT'' then (Return_cb, v, d)
      else if r = Some ''OK''
      then (Return_undefined, v\<lparr>init_s := AT_RSP_FORMAT\<rparr>, emit d [AtCmd 0 (''ATV1'' @ CRLF) 1000])
      else
        (let v1 = v\<lparr>init_s := AT_SYNCHRO, atSync := atSync v + 1\<rparr> in
         if atSync v1 \<le> 10
         then (Return_undefined, v1, emit d [AtCmd 500 (''AT'' @ CRLF) 1000])
         else (Return_undefined, v1, callback d (Some (''Error in AT sync: '' @ js_str r)))))"

definition cb_AT_RSP_FORMAT :: "init_vars \<Rightarrow> driver \<Rightarrow> string option \<Rightarrow> cb_ret \<times> init_vars \<times> driver" where
  "cb_AT_RSP_FORMAT v d r =
     (if r = Some ''OK''
      then (Return_undefined, v\<lparr>init_s := AT_ECHO_OFF\<rparr>, emit d [AtCmd 0 (''ATE0'' @ CRLF) 1000])
      else if r = Some ''ATV1'' then (Return_cb, v, d)
      else if truthy r then (Return_undefined, v, callback d (Some (''Error in ATV1: '' @ js_str r)))
      else if r = None then (Return_undefined, v, callback d (Some ''ATV1 time-out !!!''))
      else (Return_undefined, v, d))"

definition cb_AT_ECHO_OFF :: "init_vars \<Rightarrow> driver \<Rightarrow> string option \<Rightarrow> cb_ret \<times> init_vars \<times> driver" where
  "cb_AT_ECHO_OFF v d r =
     (if r = Some ''IIIIATE0'' \<or> r = Some (''IIII'' @ [CHR 0xFF] @ ''ATE0'') \<or> r = Some ''ATE0''
      then (Return_cb, v, d)
      else if r = Some ''OK'' then
        (if flowcontrol d
         then (Return_undefined, v\<lparr>init_s := AT_HW_FLOW_CONTROL\<rparr>,
               emit d [AtCmd 0 (''AT+IFC=2,2'' @ CRLF) 2000])
         else (Return_undefined, v\<lparr>init_s := AT_CPIN\<rparr>,
               emit d [AtCmd 0 (''AT+CPIN?'' @ CRLF) 5000]))
      else if r = Some ''atE0''
      then (Return_undefined, v\<lparr>init_s := AT_CPIN\<rparr>, emit d [AtCmd 0 (''AT+CPIN?'' @ CRLF) 5000])
      else if truthy r then (Return_undefined, v, callback d (Some (''Error in ATE0: '' @ js_str r)))
      else if r = None
      then (Return_undefined, v\<lparr>init_s := AT_CPIN\<rparr>, emit d [AtCmd 0 (''AT+CPIN?'' @ CRLF) 5000])
      else (Return_undefined, v, d))"

definition cb_AT_HW_FLOW_CONTROL :: "init_vars \<Rightarrow> driver \<Rightarrow> string option \<Rightarrow> cb_ret \<times> init_vars \<times> driver" where
  "cb_AT_HW_FLOW_CONTROL v d r =
     (if r = Some ''OK''
      then (Return_undefined, v\<lparr>init_s := AT_CPIN\<rparr>, emit d [AtCmd 0 (''AT+CPIN?'' @ CRLF) 5000])
      else (Return_undefined, v\<lparr>init_s := AT_CPIN\<rparr>,
            emit (callback d (Some ''HW flow control establismnent failed''))
              [AtCmd 0 (''AT+CPIN?'' @ CRLF) 5000]))"

definition cb_AT_CPIN :: "init_vars \<Rightarrow> driver \<Rightarrow> string option \<Rightarrow> cb_ret \<times> init_vars \<times> driver" where
  "cb_AT_CPIN v d r =
     (if r = Some ''+CPIN: READY'' then (Return_cb, v, d)
      else if r = Some ''OK''
      then (Return_undefined, v\<lparr>init_s := AT_SHOW_SIM_ID\<rparr>, emit d [AtCmd 0 (''AT+QCCID'' @ CRLF) 2000])
      else if truthy r then (Return_undefined, v, callback d (Some (''Error in CPIN: '' @ js_str r)))
      else if r = None then (Return_undefined, v, callback d (Some ''AT+CPIN time-out !!!''))
      else (Return_undefined, v, d))"

definition cb_AT_SHOW_SIM_ID :: "init_vars \<Rightarrow> driver \<Rightarrow> string option \<Rightarrow> cb_ret \<times> init_vars \<times> driver" where
  "cb_AT_SHOW_SIM_ID v d r =
     (if truthy r \<and> substr (js_str r) 0 7 = ''+QCCID:''
      then (Return_cb, v,
            d\<lparr>ccid := Some (substring (js_str r) 8 (int (length (js_str r)) - 1))\<rparr>)
      else if r = Some ''OK''
      then (Return_undefined, v\<lparr>init_s := AT_QUERY_SIGNAL_QUALITY\<rparr>,
            emit d [AtCmd 0 (''AT+CSQ'' @ CRLF) 2000])
      else if truthy r then (Return_undefined, v, callback d (Some (''Error in QCCID: '' @ js_str r)))
      else if r = None then (Return_undefined, v, callback d (Some ''AT+QCCID time-out !!!''))
      else (Return_undefined, v, d))"

definition cb_AT_QUERY_SIGNAL_QUALITY :: "init_vars \<Rightarrow> driver \<Rightarrow> string option \<Rightarrow> cb_ret \<times> init_vars \<times> driver" where
  "cb_AT_QUERY_SIGNAL_QUALITY v d r =
     (if truthy r \<and> substr (js_str r) 0 5 = ''+CSQ:''
      then (Return_cb,
            v\<lparr>signal_quality_report := (substr (js_str r) 0 11 \<noteq> ''+CSQ: 99,99'')\<rparr>, d)
      else if r = Some ''OK'' then
        (if signal_quality_report v
         then (Return_undefined, v\<lparr>init_s := AT_PS_ATTACHMENT\<rparr>,
               emit d [AtCmd 5000 (''AT+CGATT=1'' @ CRLF) 75000])
         else (Return_undefined, v, emit d [AtCmd 500 (''AT+CSQ'' @ CRLF) 2000]))
      else if truthy r then (Return_undefined, v, callback d (Some (''Error in QCCID: '' @ js_str r)))
      else if r = None then (Return_undefined, v, callback d (Some ''AT+CSQ time-out !!!''))
      else (Return_undefined, v, d))"

definition cb_AT_PS_ATTACHMENT :: "init_vars \<Rightarrow> driver \<Rightarrow> string option \<Rightarrow> cb_ret \<times> init_vars \<times> driver" where
  "cb_AT_PS_ATTACHMENT v d r =
     (if r = Some ''OK''
      then (Return_undefined, v\<lparr>init_s := AT_CURRENT_OPERATOR\<rparr>,
            emit d [AtCmd 0 (''AT+COPS?'' @ CRLF) 20000])
      else if truthy r then
        (let v1 = v\<lparr>attRetry := attRetry v + 1\<rparr> in
         if 1 = attRetry v1
         then (Return_undefined, v1\<lparr>init_s := AT_AUTOMATIC_OPERATOR_SELECTION\<rparr>,
               emit d [AtCmd 2000 (''AT+COPS=0'' @ CRLF) 180000])
         else if attRetry v1 < 4
         then (Return_undefined, v1\<lparr>init_s := AT_PS_ATTACHMENT\<rparr>,
               emit d [AtCmd (2000 * attRetry v1) (''AT+CGATT=1'' @ CRLF) 75000])
         else (Return_undefined, v1,
               callback d (Some (''Unrecoverable Error, PS attachment failed: '' @ js_str r))))
      else (Return_undefined, v, d))"

definition cb_AT_AUTOMATIC_OPERATOR_SELECTION :: "init_vars \<Rightarrow> driver \<Rightarrow> string option \<Rightarrow> cb_ret \<times> init_vars \<times> driver" where
  "cb_AT_AUTOMATIC_OPERATOR_SELECTION v d r =
     (Return_undefined, v\<lparr>init_s := AT_LIST_CURRENT_OPERATORS\<rparr>,
      emit d [AtCmd 5000 (''AT+COPS?'' @ CRLF) 10000])"

definition cb_AT_LIST_CURRENT_OPERATORS :: "init_vars \<Rightarrow> driver \<Rightarrow> string option \<Rightarrow> cb_ret \<times> init_vars \<times> driver" where
  "cb_AT_LIST_CURRENT_OPERATORS v d r =
     (Return_undefined, v\<lparr>init_s := AT_PS_ATTACHMENT\<rparr>,
      emit d [AtCmd 30000 (''AT+CGATT=1'' @ CRLF) 30000])"

definition cb_AT_CURRENT_OPERATOR :: "init_vars \<Rightarrow> driver \<Rightarrow> string option \<Rightarrow> cb_ret \<times> init_vars \<times> driver" where
  "cb_AT_CURRENT_OPERATOR v d r =
     (if r = Some ''OK'' then (Return_undefined, v, callback d None)
      else if truthy r \<and> substr (js_str r) 0 6 = ''+COPS:'' then (Return_cb, v, d)
      else if truthy r then (Return_undefined, v, callback d (Some (''Error in COPS? '' @ js_str r)))
      else if r = None then (Return_undefined, v, callback d (Some ''AT+COPS? time-out !!!''))
      else (Return_undefined, v, d))"

text \<open>The handler \<^verbatim>\<open>cb\<close> of \<^verbatim>\<open>init\<close>: \<^verbatim>\<open>switch(s)\<close>.\<close>

definition init_cb :: "init_vars \<Rightarrow> driver \<Rightarrow> string option \<Rightarrow> cb_ret \<times> init_vars \<times> driver" where
  "init_cb v d r =
     (case init_s v of
        AT_SYNCHRO \<Rightarrow> cb_AT_SYNCHRO v d r
      | AT_RSP_FORMAT \<Rightarrow> cb_AT_RSP_FORMAT v d r
      | AT_ECHO_OFF \<Rightarrow> cb_AT_ECHO_OFF v d r
      | AT_HW_FLOW_CONTROL \<Rightarrow> cb_AT_HW_FLOW_CONTROL v d r
      | AT_CPIN \<Rightarrow> cb_AT_CPIN v d r
      | AT_SHOW_SIM_ID \<Rightarrow> cb_AT_SHOW_SIM_ID v d r
      | AT_QUERY_SIGNAL_QUALITY \<Rightarrow> cb_AT_QUERY_SIGNAL_QUALITY v d r
      | AT_PS_ATTACHMENT \<Rightarrow> cb_AT_PS_ATTACHMENT v d r
      | AT_AUTOMATIC_OPERATOR_SELECTION \<Rightarrow> cb_AT_AUTOMATIC_OPERATOR_SELECTION v d r
      | AT_LIST_CURRENT_OPERATORS \<Rightarrow> cb_AT_LIST_CURRENT_OPERATORS v d r
      | AT_CURRENT_OPERATOR \<Rightarrow> cb_AT_CURRENT_OPERATOR v d r)"

text \<open>\<^verbatim>\<open>init(callback)\<close>: fresh local variables and the first probe, 500 ms later.\<close>

definition init :: "driver \<Rightarrow> init_vars \<times> driver" where
  "init d =
     (\<lparr>atSync = 0, attRetry = 0, init_s = AT_SYNCHRO, signal_quality_report = False\<rparr>,
      emit d [AtCmd 500 (''AT'' @ CRLF) 1000])"

text \<open>
  One call of \<^verbatim>\<open>init\<close> under the engine. \<open>listening\<close>: \<^verbatim>\<open>cb\<close> is the handler of a
  command that is outstanding or scheduled, which is so after \<^verbatim>\<open>cb\<close> returned itself
  or handed a new command to \<^verbatim>\<open>at.cmd\<close>. A response reaches \<^verbatim>\<open>cb\<close> only then.
\<close>

fun is_AtCmd :: "effect \<Rightarrow> bool" where
  "is_AtCmd (AtCmd delay c t) = True"
| "is_AtCmd e = False"

record lifecycle =
  vars :: init_vars
  drv :: driver
  listening :: bool

definition init_start :: "driver \<Rightarrow> lifecycle" where
  "init_start d = \<lparr>vars = fst (init d), drv = snd (init d), listening = True\<rparr>"

definition init_deliver :: "lifecycle \<Rightarrow> string option \<Rightarrow> lifecycle" where
  "init_deliver st r =
     (if listening st then
        (case init_cb (vars st) (drv st) r of
           (ret, v1, d1) \<Rightarrow>
             \<lparr>vars = v1, drv = d1,
              listening = (ret = Return_cb \<or> list_ex is_AtCmd (drop (length (trace (drv st))) (trace d1)))\<rparr>)
      else st)"

definition init_run :: "driver \<Rightarrow> string option list \<Rightarrow> lifecycle" where
  "init_run d rs = foldl init_deliver (init_start d) rs"

text \<open>The errors the completion callback was called with, in order, and the number of
  synchronisation probes handed to the engine.\<close>

fun callbacks :: "effect list \<Rightarrow> string option list" where
  "callbacks [] = []"
| "callbacks (Callback err res # es) = err # callbacks es"
| "callbacks (e # es) = callbacks es"

definition probes :: "effect list \<Rightarrow> nat" where
  "probes es = length (filter (\<lambda>e. e = AtCmd 500 (''AT'' @ CRLF) 1000) es)"

text \<open>
  A response that the state \<open>AT_PS_ATTACHMENT\<close> counts as a failed attach attempt: a
  non-empty line other than \<^verbatim>\<open>OK\<close> (the branch \<^verbatim>\<open>else if(r)\<close>).
\<close>

definition attach_failure :: "string option \<Rightarrow> bool" where
  "attach_failure r = (truthy r \<and> r \<noteq> Some ''OK'')"

text \<open>
  \<^verbatim>\<open>connect(apn, username, password, callback)\<close>: the local variable \<^verbatim>\<open>s\<close> of the
  call is 0 while the PDP context is being configured and 1 while it is being activated.
\<close>

definition connect :: "driver \<Rightarrow> string \<Rightarrow> string \<Rightarrow> string \<Rightarrow> nat \<times> driver" where
  "connect d apn username password =
     (0, emit d [AtCmd 0 (''AT+QICSGP=1,1,'' @ [CHR 0x22] @ apn @ [CHR 0x22] @ '', '' @
                          [CHR 0x22] @ username @ [CHR 0x22] @ '', '' @
                          [CHR 0x22] @ password @ [CHR 0x22] @ CRLF) 30000])"

definition connect_cb :: "nat \<Rightarrow> driver \<Rightarrow> string option \<Rightarrow> cb_ret \<times> nat \<times> driver" where
  "connect_cb s d r =
     (if s = 0 then
        (if r = Some ''OK'' then (Return_undefined, 1, emit d [AtCmd 0 (''AT+QIACT=1'' @ CRLF) 30000])
         else if truthy r
         then (Return_undefined, s,
               callback d (Some (''Error in '' @ num_to_string (int s) @ '': '' @ js_str r)))
         else (Return_undefined, s, d))
      else if s = 1 then
        (if r = Some ''OK'' then (Return_undefined, s, callback d None)
         else if truthy r
         then (Return_undefined, s,
               callback d (Some (''Error in '' @ num_to_string (int s) @ '': '' @ js_str r)))
         else (Return_undefined, s, callback d None))
      else (Return_undefined, s, d))"

text \<open>One call of \<^verbatim>\<open>connect\<close> under the engine, as for \<^verbatim>\<open>init\<close>.\<close>

record connecting =
  conn_s :: nat
  conn_drv :: driver
  conn_listening :: bool

definition connect_start :: "driver \<Rightarrow> string \<Rightarrow> string \<Rightarrow> string \<Rightarrow> connecting" where
  "connect_start d apn username password =
     \<lparr>conn_s = fst (connect d apn username password),
      conn_drv = snd (connect d apn username password), conn_listening = True\<rparr>"

definition connect_deliver :: "connecting \<Rightarrow> string option \<Rightarrow> connecting" where
  "connect_deliver st r =
     (if conn_listening st then
        (case connect_cb (conn_s st) (conn_drv st) r of
           (ret, s1, d1) \<Rightarrow>
             \<lparr>conn_s = s1, conn_drv = d1,
              conn_listening =
                (ret = Return_cb \<or> list_ex is_AtCmd (drop (length (trace (conn_drv st))) (trace d1)))\<rparr>)
      else st)"












section \<open>Geolocation\<close>

text \<open>
  \<^verbatim>\<open>geoLocStart(period)\<close> issues the first query; its handler \<^verbatim>\<open>cb\<close> stores a
  \<^verbatim>\<open>+QCELLLOC:\<close> response and returns itself, and on every other response schedules
  the next query when \<^verbatim>\<open>geoPos\<close> is still set.
\<close>

definition geoLocStart :: "driver \<Rightarrow> nat \<Rightarrow> driver" where
  "geoLocStart d period = emit (d\<lparr>geoPos := True\<rparr>) [AtCmd 0 (''AT+QCELLLOC=1'' @ CRLF) 2000]"

definition geoLoc_next :: "nat \<Rightarrow> driver \<Rightarrow> driver" where
  "geoLoc_next period d =
     (if geoPos d then emit d [AtCmd period (''AT+QCELLLOC=1'' @ CRLF) 2000] else d)"

definition geoLoc_cb :: "nat \<Rightarrow> driver \<Rightarrow> string option \<Rightarrow> cb_ret \<times> driver" where
  "geoLoc_cb period d r =
     (if r = None then (Return_undefined, geoLoc_next period (d\<lparr>longlat := []\<rparr>))
      else if r = Some ''OK'' then (Return_undefined, geoLoc_next period d)
      else if truthy r \<and> substr (js_str r) 0 10 = ''+QCELLLOC:''
      then (Return_cb,
            d\<lparr>longlat := substring (js_str r) (1 + indexOf (js_str r) '' '') (int (length (js_str r)))\<rparr>)
      else (Return_undefined, geoLoc_next period (d\<lparr>longlat := []\<rparr>)))"

definition geoLocStop :: "driver \<Rightarrow> driver" where
  "geoLocStop d = d\<lparr>geoPos := False, longlat := []\<rparr>"

text \<open>Responses that reach the handler of a query, one after the other.\<close>

definition geoLoc_deliver_all :: "nat \<Rightarrow> driver \<Rightarrow> string option list \<Rightarrow> driver" where
  "geoLoc_deliver_all period d rs = foldl (\<lambda>d1 r. snd (geoLoc_cb period d1 r)) d rs"

text \<open>A whole exchange of \<^verbatim>\<open>connect\<close>: the responses that arrive after the call.\<close>

definition connect_run :: "driver \<Rightarrow> string \<Rightarrow> string \<Rightarrow> string \<Rightarrow> string option list \<Rightarrow> connecting" where
  "connect_run d apn username password rs =
     foldl connect_deliver (connect_start d apn username password) rs"






section \<open>Properties\<close>

subsection \<open>Searching and splitting strings\<close>

lemma startsWith_append: "startsWith (p @ r) p"
  by (induction p) auto

lemma startsWith_hd: "sub \<noteq> [] \<Longrightarrow> hd sub \<noteq> h \<Longrightarrow> \<not> startsWith (h # t) sub"
  by (cases sub) auto

lemma indexOf_from_skip:
  "sub \<noteq> [] \<Longrightarrow> hd sub \<notin> set H \<Longrightarrow> indexOf_from i (H @ sub @ rest) sub = int (i + length H)"
proof (induction H arbitrary: i)
  case Nil
  then obtain c cs where "sub = c # cs" by (cases sub) auto
  then show ?case using startsWith_append [of sub rest] by simp
next
  case (Cons h H)
  then have "\<not> startsWith (h # H @ sub @ rest) sub" by (intro startsWith_hd) auto
  with Cons show ?case by simp
qed

lemma indexOf_skip:
  "sub \<noteq> [] \<Longrightarrow> hd sub \<notin> set H \<Longrightarrow> indexOf (H @ sub @ rest) sub = int (length H)"
  by (simp add: indexOf_def indexOf_from_skip)

lemma js_split_no_sep: "sep \<notin> set s \<Longrightarrow> js_split sep s = [s]"
  by (induction s) auto

lemma js_split_two:
  "sep \<notin> set a \<Longrightarrow> sep \<notin> set b \<Longrightarrow> js_split sep (a @ sep # b) = [a, b]"
  by (induction a) (auto simp: js_split_no_sep)

lemma substr_append: "substr (A @ B) (int (length A)) (int n) = take n B"
  by (simp add: substr_def substr_start_def)

lemma substr_from_append: "substr_from (A @ B) (int (length A + k)) = drop k B"
proof -
  have "substr_start (A @ B) (int (length A + k)) = min (length A + k) (length A + length B)"
    unfolding substr_start_def by (simp flip: of_nat_add add: min_def)
  then show ?thesis by (cases "k \<le> length B") (simp_all add: substr_from_def min_def)
qed

lemma substring_middle:
  "substring (A @ R @ C) (int (length A)) (int (length A + length R)) = R"
proof -
  have x: "clamp_index (A @ R @ C) (int (length A)) = length A"
    by (simp add: clamp_index_def)
  have y: "clamp_index (A @ R @ C) (int (length A) + int (length R)) = length A + length R"
    unfolding clamp_index_def by (simp flip: of_nat_add add: min_def)
  show ?thesis by (simp add: substring_def x y)
qed

subsection \<open>Decimal text of a number\<close>

lemma digit_char_in: "d < 10 \<Longrightarrow> digit_char d \<in> digit_chars"
  unfolding digit_char_def digit_chars_def by (simp only: if_True nth_mem length_Cons list.size)

lemma digit_val_digit_char: "d < 10 \<Longrightarrow> digit_val (digit_char d) = d"
proof -
  assume "d < 10"
  then have "d = 0 \<or> d = 1 \<or> d = 2 \<or> d = 3 \<or> d = 4 \<or> d = 5 \<or> d = 6 \<or> d = 7 \<or> d = 8 \<or> d = 9"
    by arith
  then show ?thesis
    by (elim disjE) (simp_all add: digit_char_def digit_val_def)
qed

lemma digit_chars_props:
  "c \<in> digit_chars \<Longrightarrow>
     is_digit c \<and> \<not> is_space c \<and> c \<noteq> CHR '','' \<and> c \<noteq> CHR '':'' \<and> c \<noteq> CHR 0x0D
     \<and> c \<noteq> CHR ''-'' \<and> c \<noteq> CHR ''+''"
  by (auto simp: digit_chars_def is_digit_def is_space_def)

lemma dec_nat_digits: "set (dec_nat n) \<subseteq> digit_chars"
proof (induction n rule: dec_nat.induct)
  case (1 n)
  show ?case
  proof (cases "n < 10")
    case True
    then show ?thesis by (simp add: dec_nat.simps [of n] digit_char_in)
  next
    case False
    with 1 show ?thesis by (simp add: dec_nat.simps [of n] digit_char_in)
  qed
qed

lemma dec_nat_nonempty: "dec_nat n \<noteq> []"
  by (simp add: dec_nat.simps [of n])

lemma digits_val_snoc: "digits_val (s @ [c]) = 10 * digits_val s + digit_val c"
  by (simp add: digits_val_def)

lemma digits_val_dec_nat: "digits_val (dec_nat n) = n"
proof (induction n rule: dec_nat.induct)
  case (1 n)
  show ?case
  proof (cases "n < 10")
    case True
    then show ?thesis by (simp add: dec_nat.simps [of n] digits_val_def digit_val_digit_char)
  next
    case False
    with 1 show ?thesis
      by (simp add: dec_nat.simps [of n] digits_val_snoc digit_val_digit_char)
  qed
qed

lemma dropWhile_none: "\<forall>c\<in>set t. \<not> P c \<Longrightarrow> dropWhile P t = t"
  by (cases t) auto

lemma trim_no_space: "\<forall>c\<in>set s. \<not> is_space c \<Longrightarrow> trim s = s"
  by (simp add: trim_def dropWhile_none)

lemma str_to_number_digits:
  assumes "s \<noteq> []" and "set s \<subseteq> digit_chars"
  shows "str_to_number s = Some (int (digits_val s))"
proof -
  have d: "\<forall>c\<in>set s. is_digit c \<and> \<not> is_space c \<and> c \<noteq> CHR ''-'' \<and> c \<noteq> CHR ''+''"
    using assms(2) digit_chars_props by blast
  then have t: "trim s = s" by (simp add: trim_no_space)
  obtain c ds where cds: "s = c # ds"
    using assms(1) by (cases s) auto
  have c: "c \<noteq> CHR ''-''" "c \<noteq> CHR ''+''" using d cds by auto
  have all: "list_all is_digit (c # ds)" using d cds by (simp add: list_all_iff)
  have "str_to_number (c # ds) = Some (int (digits_val (c # ds)))"
    using c all t [unfolded cds] by (simp add: str_to_number_def)
  then show ?thesis by (simp add: cds)
qed

lemma str_to_number_dec_nat: "str_to_number (dec_nat n) = Some (int n)"
  by (simp add: str_to_number_digits dec_nat_nonempty dec_nat_digits digits_val_dec_nat)

lemma bitor0_dec_nat: "n < 2 ^ 31 \<Longrightarrow> bitor0 (Some (dec_nat n)) = int n"
proof -
  assume "n < 2 ^ 31"
  then have "int n < 2 ^ 31" by (metis of_nat_less_iff of_nat_numeral of_nat_power)
  then have "to_int32 (int n) = int n" by (simp add: to_int32_def)
  then show ?thesis by (simp add: bitor0_def str_to_number_dec_nat)
qed

lemma dec_nat_no:
  "CHR '','' \<notin> set (dec_nat n)" "CHR '':'' \<notin> set (dec_nat n)" "CHR 0x0D \<notin> set (dec_nat n)"
  using dec_nat_digits [of n] digit_chars_props by blast+

lemma num_to_string_nat: "num_to_string (int n) = dec_nat n"
  by (simp add: num_to_string_def)

lemma split_fields:
  "js_split CHR '','' (dec_nat sckt @ CHR '','' # dec_nat n) = [dec_nat sckt, dec_nat n]"
  using js_split_two [of "CHR '',''" "dec_nat sckt" "dec_nat n"] dec_nat_no by simp

subsection \<open>What the two reassembly handlers compute on a well-formed line\<close>

lemma receiveHandler_eval:
  assumes n: "n < 2 ^ 31"
  shows "receiveHandler d (recv_header sckt n @ B) =
    (if n \<le> length B
     then (drop (Suc n) B, d\<lparr>sockData := sockData_append (sockData d) (dec_nat sckt) (take n B)\<rparr>)
     else (recv_token sckt (n - length B),
           d\<lparr>sockData := sockData_append (sockData d) (dec_nat sckt) B\<rparr>))"
proof -
  define P where "P = ''+QIURC: '' @ [CHR 0x22] @ ''recv'' @ [CHR 0x22] @ '',''"
  define R where "R = dec_nat sckt @ CHR '','' # dec_nat n"
  define H where "H = P @ R"
  define A where "A = H @ CRLF"
  define line where "line = recv_header sckt n @ B"
  have lP: "length P = 15" by (simp add: P_def)
  have lA: "length A = length H + 2" by (simp add: A_def CRLF_def)
  have line: "line = H @ CRLF @ B" by (simp add: line_def recv_header_def P_def R_def H_def)
  have line2: "line = P @ R @ (CRLF @ B)" by (simp add: line H_def)
  have line3: "line = A @ B" by (simp add: line A_def)
  have noCR: "hd CRLF \<notin> set H"
    using dec_nat_no(3) [of sckt] dec_nat_no(3) [of n] by (simp add: CRLF_def P_def R_def H_def)
  have colon: "indexOf line CRLF = int (length H)"
    unfolding line using noCR by (intro indexOf_skip) (simp_all add: CRLF_def)
  have "substring line (int (length P)) (int (length P + length R)) = R"
    unfolding line2 by (rule substring_middle)
  then have sub: "substring line 15 (int (length H)) = R"
    by (simp add: lP H_def)
  have parms: "js_split CHR '','' R = [dec_nat sckt, dec_nat n]"
    by (simp add: R_def split_fields)
  have p1: "bitor0 (Some (dec_nat n)) = int n" using n by (rule bitor0_dec_nat)
  have len: "int (length line) - (int (length H) + 2) = int (length B)"
    by (simp add: line3 lA)
  have iA: "int (length H) + 2 = int (length A)" by (simp add: lA)
  have iR: "int (length H) + int n + 3 = int (length A + Suc n)" by (simp add: lA)
  have rest: "substr_from line (int (length H) + int n + 3) = drop (Suc n) B"
    unfolding iR line3 by (rule substr_from_append)
  have body: "substr line (int (length H) + 2) (int m) = take m B" for m
    unfolding iA line3 by (rule substr_append)
  have tok: "\<not> n \<le> length B \<Longrightarrow> num_to_string (int n - int (length B)) = dec_nat (n - length B)"
    using num_to_string_nat [of "n - length B"] by (simp add: of_nat_diff)
  have "receiveHandler d line =
    (if n \<le> length B
     then (drop (Suc n) B, d\<lparr>sockData := sockData_append (sockData d) (dec_nat sckt) (take n B)\<rparr>)
     else (recv_token sckt (n - length B),
           d\<lparr>sockData := sockData_append (sockData d) (dec_nat sckt) B\<rparr>))"
    unfolding receiveHandler_def colon Let_def sub parms
    using body [of n] body [of "length B"] rest tok
    by (simp add: js_index_def js_str_def p1 len recv_token_def)
  then show ?thesis by (simp add: line_def)
qed

lemma receiveHandler2_eval:
  assumes n: "n < 2 ^ 31"
  shows "receiveHandler2 d (recv_token sckt n @ B) =
    (if n \<le> length B
     then (drop n B, d\<lparr>sockData := sockData_append (sockData d) (dec_nat sckt) (take n B)\<rparr>)
     else (recv_token sckt (n - length B),
           d\<lparr>sockData := sockData_append (sockData d) (dec_nat sckt) B\<rparr>))"
proof -
  define P where "P = ''+D,''"
  define R where "R = dec_nat sckt @ CHR '','' # dec_nat n"
  define H where "H = P @ R"
  define A where "A = H @ '':''"
  define line where "line = recv_token sckt n @ B"
  have lP: "length P = 3" by (simp add: P_def)
  have lA: "length A = length H + 1" by (simp add: A_def)
  have line: "line = H @ '':'' @ B" by (simp add: line_def recv_token_def P_def R_def H_def)
  have line2: "line = P @ R @ ('':'' @ B)" by (simp add: line H_def)
  have line3: "line = A @ B" by (simp add: line A_def)
  have noC: "hd '':'' \<notin> set H"
    using dec_nat_no(2) [of sckt] dec_nat_no(2) [of n] by (simp add: P_def R_def H_def)
  have colon: "indexOf line '':'' = int (length H)"
    unfolding line using noC by (intro indexOf_skip) simp_all
  have "substring line (int (length P)) (int (length P + length R)) = R"
    unfolding line2 by (rule substring_middle)
  then have sub: "substring line 3 (int (length H)) = R"
    by (simp add: lP H_def)
  have parms: "js_split CHR '','' R = [dec_nat sckt, dec_nat n]"
    by (simp add: R_def split_fields)
  have p1: "bitor0 (Some (dec_nat n)) = int n" using n by (rule bitor0_dec_nat)
  have len: "int (length line) - (int (length H) + 1) = int (length B)"
    by (simp add: line3 lA)
  have iA: "int (length H) + 1 = int (length A)" by (simp add: lA)
  have iR: "int (length H) + int n + 1 = int (length A + n)" by (simp add: lA)
  have rest: "substr_from line (int (length H) + int n + 1) = drop n B"
    unfolding iR line3 by (rule substr_from_append)
  have body: "substr line (int (length H) + 1) (int m) = take m B" for m
    unfolding iA line3 by (rule substr_append)
  have tok: "\<not> n \<le> length B \<Longrightarrow> num_to_string (int n - int (length B)) = dec_nat (n - length B)"
    using num_to_string_nat [of "n - length B"] by (simp add: of_nat_diff)
  have "receiveHandler2 d line =
    (if n \<le> length B
     then (drop n B, d\<lparr>sockData := sockData_append (sockData d) (dec_nat sckt) (take n B)\<rparr>)
     else (recv_token sckt (n - length B),
           d\<lparr>sockData := sockData_append (sockData d) (dec_nat sckt) B\<rparr>))"
    unfolding receiveHandler2_def colon Let_def sub parms
    using body [of n] body [of "length B"] rest tok
    by (simp add: js_index_def js_str_def p1 len recv_token_def)
  then show ?thesis by (simp add: line_def)
qed

lemma receiveHandler2_empty: "receiveHandler2 d [] = ([], d)"
  by (simp add: receiveHandler2_def indexOf_def)

lemma sockData_append_twice:
  "sockData_append (sockData_append sd key x) key y = sockData_append sd key (x @ y)"
  by (simp add: sockData_append_def js_str_def)

section \<open>C2: reassembly does not depend on where the payload is split\<close>

text \<open>
  Claim C2. For every socket id, every payload (its length \<open>L\<close> is the length the
  header declares) and every split point \<open>k\<close> with \<open>0 \<le> k \<le> L\<close>: giving the header
  and the first \<open>k\<close> bytes to \<^verbatim>\<open>receiveHandler\<close>, then its returned continuation
  text and the remaining \<open>L - k\<close> bytes to \<^verbatim>\<open>receiveHandler2\<close>, leaves the same
  state, and so the same buffer of the addressed socket, as one dispatch of the header
  with all \<open>L\<close> bytes: the old buffer followed by the payload. A JavaScript string is
  shorter than \<open>2^31\<close> characters, which is where \<^verbatim>\<open>0|parms[1]\<close> would wrap.
\<close>

theorem reassembly_split_invariant:
  assumes "k \<le> length payload" and "length payload < 2 ^ 31"
  shows "snd (receive_in_two d sckt payload k) =
           snd (receiveHandler d (recv_header sckt (length payload) @ payload))
       \<and> sockData (snd (receive_in_two d sckt payload k)) (sock_key sckt) =
           Some (js_str (sockData d (sock_key sckt)) @ payload)"
proof -
  let ?L = "length payload"
  have one: "receiveHandler d (recv_header sckt ?L @ payload) =
      (drop (Suc ?L) payload, d\<lparr>sockData := sockData_append (sockData d) (dec_nat sckt) payload\<rparr>)"
    using receiveHandler_eval [OF assms(2), of d sckt payload] by simp
  have two: "snd (receive_in_two d sckt payload k) =
      d\<lparr>sockData := sockData_append (sockData d) (dec_nat sckt) payload\<rparr>"
  proof (cases "k = ?L")
    case True
    then show ?thesis
      using receiveHandler_eval [OF assms(2), of d sckt "take k payload"]
      by (simp add: receive_in_two_def receiveHandler2_empty)
  next
    case False
    with assms(1) have lt: "k < ?L" by simp
    then have rem: "?L - k < 2 ^ 31" using assms(2) by simp
    have first: "receiveHandler d (recv_header sckt ?L @ take k payload) =
        (recv_token sckt (?L - k), d\<lparr>sockData := sockData_append (sockData d) (dec_nat sckt) (take k payload)\<rparr>)"
      using receiveHandler_eval [OF assms(2), of d sckt "take k payload"] lt by (simp add: min_def)
    show ?thesis
      unfolding receive_in_two_def first
      using receiveHandler2_eval [OF rem, of _ sckt "drop k payload"]
      by (simp add: sockData_append_twice)
  qed
  show ?thesis
    by (simp add: one two sock_key_def num_to_string_nat sockData_append_def)
qed

theorem reassembly_split_invariant_witness:
  "(2::nat) \<le> length ''hello'' \<and> length ''hello'' < (2::nat) ^ 31
   \<and> snd (receive_in_two driver_init 3 ''hello'' 2) =
       snd (receiveHandler driver_init (recv_header 3 (length ''hello'') @ ''hello''))
   \<and> sockData (snd (receive_in_two driver_init 3 ''hello'' 2)) ''3'' = Some ''hello''"
proof -
  have h: "(2::nat) \<le> length ''hello''" "length ''hello'' < (2::nat) ^ 31" by simp_all
  have k: "sock_key 3 = ''3''"
    by (simp add: sock_key_def num_to_string_def dec_nat.simps digit_char_def)
  have b: "js_str (sockData driver_init ''3'') = []"
    by (simp add: driver_init_def sockData_init_def sock_key_def num_to_string_def
        dec_nat.simps digit_char_def js_str_def upt_rec)
  note t = reassembly_split_invariant [OF h, of driver_init 3, unfolded k b append_Nil]
  show ?thesis using h t by blast
qed

section \<open>C10: the byte after a complete payload\<close>

text \<open>
  Claim C10. When one dispatch to \<^verbatim>\<open>receiveHandler\<close> holds a complete header declaring
  \<open>L\<close> bytes, the \<open>L\<close> payload bytes and at least one more byte, the text returned for
  re-dispatch starts one byte past the end of the payload: the byte right after the
  payload is dropped. \<^verbatim>\<open>receiveHandler2\<close> in the same situation returns everything
  after the payload, including that byte. Both append exactly the payload to the buffer.
\<close>

theorem receiveHandler_drops_byte_after_payload:
  assumes "length payload < 2 ^ 31"
  shows "receiveHandler d (recv_header sckt (length payload) @ payload @ b # rest) =
           (rest, d\<lparr>sockData := sockData_append (sockData d) (sock_key sckt) payload\<rparr>)
       \<and> receiveHandler2 d (recv_token sckt (length payload) @ payload @ b # rest) =
           (b # rest, d\<lparr>sockData := sockData_append (sockData d) (sock_key sckt) payload\<rparr>)"
  using receiveHandler_eval [OF assms, of d sckt "payload @ b # rest"]
        receiveHandler2_eval [OF assms, of d sckt "payload @ b # rest"]
  by (simp add: sock_key_def num_to_string_nat)

theorem receiveHandler_drops_byte_after_payload_witness:
  "length ''abcde'' < (2::nat) ^ 31
   \<and> fst (receiveHandler driver_init (recv_header 3 (length ''abcde'') @ ''abcde'' @ CHR ''X'' # ''YZ'')) = ''YZ''
   \<and> fst (receiveHandler2 driver_init (recv_token 3 (length ''abcde'') @ ''abcde'' @ CHR ''X'' # ''YZ'')) = ''XYZ''"
  using receiveHandler_drops_byte_after_payload [of "''abcde''" driver_init 3 "CHR ''X''" "''YZ''"]
  by simp

subsection \<open>The socket table\<close>

lemma find_free_props:
  "socks_get ss (find_free ss i) = Undefined \<and> i \<le> find_free ss i
   \<and> (\<forall>j. i \<le> j \<and> j < find_free ss i \<longrightarrow> socks_get ss j \<noteq> Undefined)"
proof (induction ss i rule: find_free.induct)
  case (1 ss sckt)
  show ?case
  proof (cases "socks_get ss sckt = Undefined")
    case True
    then show ?thesis by (auto simp: find_free.simps [of ss sckt])
  next
    case False
    have eq: "find_free ss sckt = find_free ss (Suc sckt)"
      using False by (simp add: find_free.simps [of ss sckt])
    from 1 [OF False] have ih:
      "socks_get ss (find_free ss (Suc sckt)) = Undefined"
      "Suc sckt \<le> find_free ss (Suc sckt)"
      "\<And>j. Suc sckt \<le> j \<Longrightarrow> j < find_free ss (Suc sckt) \<Longrightarrow> socks_get ss j \<noteq> Undefined"
      by auto
    show ?thesis
      unfolding eq using ih False
      by (metis Suc_leD Suc_leI le_neq_implies_less)
  qed
qed

lemma socks_get_set_same: "socks_get (socks_set ss i v) i = v"
  by (simp add: socks_get_def socks_set_def nth_append)

lemma trace_emit: "trace (emit d es) = trace d @ es"
  by (simp add: emit_def)

lemma socks_emit: "socks (emit d es) = socks d"
  by (simp add: emit_def)

section \<open>C3: which socket id \<^verbatim>\<open>create\<close> returns\<close>

text \<open>
  Claim C3 says that \<^verbatim>\<open>create(host, port)\<close> with a host always returns an id whose
  entry was \<^verbatim>\<open>undefined\<close> before the call, also when all \<open>MAXSOCKETS\<close> client slots
  are taken. The code does otherwise in that case, by its "WORKAROUND" branch.
  Claim C3 as amended: when some index below \<open>MAXSOCKETS\<close> is free, the id returned is
  the lowest free index, below \<open>MAXSOCKETS\<close>, and only \<^verbatim>\<open>openSocket\<close> is started;
  when none is free, the id returned is the index just below the first free one (every
  index up to it is taken, the next one is free), at least \<open>MAXSOCKETS - 1\<close>, its entry
  was not \<^verbatim>\<open>undefined\<close>, and \<^verbatim>\<open>AT+QICLOSE\<close> for it is handed to the engine before
  \<^verbatim>\<open>openSocket\<close> is started. In both cases the entry of the returned id is set to
  \<^verbatim>\<open>"Wait"\<close> and its buffer to the empty string, and no other entry or buffer
  changes.
\<close>

theorem create_socket_choice:
  "(if \<exists>i<MAXSOCKETS. socks_get (socks d) i = Undefined
    then fst (create d (Some h) port) < MAXSOCKETS
       \<and> socks_get (socks d) (fst (create d (Some h) port)) = Undefined
       \<and> (\<forall>j<fst (create d (Some h) port). socks_get (socks d) j \<noteq> Undefined)
       \<and> trace (snd (create d (Some h) port)) =
           trace d @ [OpenSocket (if port = 443 then 3000 else 0) (fst (create d (Some h) port)) h port 0]
    else MAXSOCKETS - 1 \<le> fst (create d (Some h) port)
       \<and> socks_get (socks d) (fst (create d (Some h) port)) \<noteq> Undefined
       \<and> (\<forall>j\<le>fst (create d (Some h) port). socks_get (socks d) j \<noteq> Undefined)
       \<and> socks_get (socks d) (Suc (fst (create d (Some h) port))) = Undefined
       \<and> trace (snd (create d (Some h) port)) =
           trace d @ [AtCmd 0 (''AT+QICLOSE='' @ dec_nat (fst (create d (Some h) port)) @ CRLF) 1000,
                      OpenSocket (if port = 443 then 3000 else 0) (fst (create d (Some h) port)) h port 0])
   \<and> socks (snd (create d (Some h) port)) = socks_set (socks d) (fst (create d (Some h) port)) Wait
   \<and> sockData (snd (create d (Some h) port)) =
       (sockData d)(sock_key (fst (create d (Some h) port)) \<mapsto> [])
   \<and> socks_get (socks (snd (create d (Some h) port))) (fst (create d (Some h) port)) = Wait"
proof -
  define free where "free = find_free (socks d) 0"
  have p1: "socks_get (socks d) free = Undefined"
    and p3: "\<And>j. j < free \<Longrightarrow> socks_get (socks d) j \<noteq> Undefined"
    using find_free_props [of "socks d" 0] by (auto simp: free_def)
  have cond: "(\<exists>i<MAXSOCKETS. socks_get (socks d) i = Undefined) \<longleftrightarrow> free < MAXSOCKETS"
    using p1 p3 by (metis not_less_iff_gr_or_eq less_trans)
  show ?thesis
  proof (cases "free < MAXSOCKETS")
    case True
    then have c: "create d (Some h) port =
        (free, emit (d\<lparr>socks := socks_set (socks d) free Wait,
                       sockData := (sockData d)(sock_key free \<mapsto> [])\<rparr>)
                 [OpenSocket (if port = 443 then 3000 else 0) free h port 0])"
      by (simp add: create_def free_def [symmetric] Let_def)
    show ?thesis
      unfolding cond c using True p1 p3
      by (simp add: trace_emit socks_emit socks_get_set_same emit_def)
  next
    case False
    then have pos: "0 < free" by (simp add: MAXSOCKETS_def)
    have c: "create d (Some h) port =
        (free - 1, emit (d\<lparr>socks := socks_set (socks d) (free - 1) Wait,
                       sockData := (sockData d)(sock_key (free - 1) \<mapsto> [])\<rparr>)
                 [AtCmd 0 (''AT+QICLOSE='' @ dec_nat (free - 1) @ CRLF) 1000,
                  OpenSocket (if port = 443 then 3000 else 0) (free - 1) h port 0])"
      using False by (simp add: create_def free_def [symmetric] Let_def num_to_string_nat)
    have occ: "socks_get (socks d) (free - 1) \<noteq> Undefined"
      using p3 [of "free - 1"] pos by simp
    have below: "\<forall>j\<le>free - 1. socks_get (socks d) j \<noteq> Undefined"
      using p3 pos by auto
    have above: "socks_get (socks d) (Suc (free - 1)) = Undefined"
      using p1 pos by simp
    show ?thesis
      unfolding cond c using False occ below above
      by (simp add: trace_emit socks_emit socks_get_set_same emit_def)
  qed
qed

theorem create_socket_choice_witness:
  "MAXSOCKETS - 1 \<le> fst (create (driver_init\<lparr>socks := replicate 13 Ready\<rparr>) (Some ''example.org'') 80)
   \<and> socks_get (socks (driver_init\<lparr>socks := replicate 13 Ready\<rparr>))
        (fst (create (driver_init\<lparr>socks := replicate 13 Ready\<rparr>) (Some ''example.org'') 80)) \<noteq> Undefined
   \<and> socks_get (socks (driver_init\<lparr>socks := replicate 13 Ready\<rparr>))
        (Suc (fst (create (driver_init\<lparr>socks := replicate 13 Ready\<rparr>) (Some ''example.org'') 80))) = Undefined
   \<and> fst (create (driver_init\<lparr>socks := [Ready, Undefined, Ready]\<rparr>) (Some ''example.org'') 443) < MAXSOCKETS
   \<and> socks_get (socks (driver_init\<lparr>socks := [Ready, Undefined, Ready]\<rparr>))
        (fst (create (driver_init\<lparr>socks := [Ready, Undefined, Ready]\<rparr>) (Some ''example.org'') 443)) = Undefined"
proof -
  have full: "\<not> (\<exists>i<MAXSOCKETS. socks_get (socks (driver_init\<lparr>socks := replicate 13 Ready\<rparr>)) i = Undefined)"
    by (simp add: socks_get_def MAXSOCKETS_def)
  have free: "\<exists>i<MAXSOCKETS. socks_get (socks (driver_init\<lparr>socks := [Ready, Undefined, Ready]\<rparr>)) i = Undefined"
    by (rule exI [of _ 1]) (simp add: socks_get_def MAXSOCKETS_def)
  note t1 = create_socket_choice [of "driver_init\<lparr>socks := replicate 13 Ready\<rparr>" "''example.org''" 80,
      unfolded if_not_P [OF full]]
  note t2 = create_socket_choice [of "driver_init\<lparr>socks := [Ready, Undefined, Ready]\<rparr>" "''example.org''" 443,
      unfolded if_P [OF free]]
  show ?thesis using t1 t2 by blast
qed

text \<open>
  With the server slot taken as well, the first free index is 13 and \<^verbatim>\<open>create\<close>
  returns 12.
\<close>

lemma create_thirteen_occupied:
  "fst (create (driver_init\<lparr>socks := replicate 13 Ready\<rparr>) (Some ''example.org'') 80) = 12"
  by (simp add: create_def driver_init_def find_free.simps socks_get_def MAXSOCKETS_def)

text \<open>
  With the twelve client slots connected, \<^verbatim>\<open>create\<close> returns 11, whose entry was
  \<^verbatim>\<open>true\<close>.
\<close>

theorem create_reuses_occupied_slot:
  "fst (create (driver_init\<lparr>socks := replicate 12 Ready\<rparr>) (Some ''example.org'') 80) = 11
   \<and> socks_get (socks (driver_init\<lparr>socks := replicate 12 Ready\<rparr>)) 11 = Ready"
  by (simp add: create_def driver_init_def find_free.simps socks_get_def MAXSOCKETS_def)

section \<open>C4: \<^verbatim>\<open>send\<close> with more than 1460 bytes\<close>

text \<open>
  Claim C4 says that \<^verbatim>\<open>send\<close> with more than 1460 bytes returns \<open>-1\<close> in every
  driver state. The busy checks come first in the code and return 0.
  Claim C4 as amended: for a payload of more than 1460 bytes \<^verbatim>\<open>send\<close> leaves the whole
  state as it was (no write, no timer, no handler) and returns 0 when the driver or the
  engine is busy or the socket is \<^verbatim>\<open>"Wait"\<close>, and \<open>-1\<close> otherwise.
\<close>

theorem send_oversize_rejected:
  "length data > 1460 \<Longrightarrow>
     send d sckt data =
       (if busy d \<or> at_isBusy d \<or> socks_get (socks d) sckt = Wait then 0 else - 1, d)"
  by (simp add: send_def)

theorem send_oversize_rejected_witness:
  "1460 < length (replicate 1461 (CHR ''a''))
   \<and> send (driver_init\<lparr>socks := [Ready]\<rparr>) 0 (replicate 1461 (CHR ''a'')) =
       (- 1, driver_init\<lparr>socks := [Ready]\<rparr>)"
  using send_oversize_rejected [of "replicate 1461 (CHR ''a'')" "driver_init\<lparr>socks := [Ready]\<rparr>" 0]
  by (simp add: driver_init_def socks_get_def)

text \<open>A connected socket, the driver busy with an earlier send: the result is 0.\<close>

theorem send_oversize_returns_zero_when_busy:
  "1460 < length (replicate 1461 (CHR ''a''))
   \<and> fst (send (driver_init\<lparr>busy := True, socks := [Ready]\<rparr>) 0 (replicate 1461 (CHR ''a''))) \<noteq> - 1"
  by (simp add: send_def)

section \<open>C7: \<^verbatim>\<open>recv\<close> returns a prefix of the buffer and keeps the rest\<close>

text \<open>
  Claim C7. When the buffer of a socket is not empty, the engine is not busy and the
  socket is not \<^verbatim>\<open>"Wait"\<close>, \<^verbatim>\<open>recv(sckt, n)\<close> with \<open>n \<ge> 1\<close> returns the first
  \<open>n\<close> characters of the buffer (all of it when it is shorter): a prefix of length at
  most \<open>n\<close>. Afterwards the buffer is the old one without that prefix, and nothing else
  has changed.
\<close>

theorem recv_returns_prefix:
  assumes "sockData d (sock_key sckt) = Some buf" and "buf \<noteq> []"
    and "\<not> at_isBusy d" and "socks_get (socks d) sckt \<noteq> Wait" and "1 \<le> n"
  shows "recv d sckt n =
           (RecvData (take (nat n) buf),
            d\<lparr>sockData := (sockData d)(sock_key sckt \<mapsto> drop (nat n) buf)\<rparr>)
       \<and> take (nat n) buf @ drop (nat n) buf = buf
       \<and> int (length (take (nat n) buf)) \<le> n"
proof -
  have s0: "substr_start buf 0 = 0" by (simp add: substr_start_def)
  have sn: "int (length buf) > n \<Longrightarrow> substr_start buf n = nat n"
    using assms(5) by (simp add: substr_start_def min_def)
  show ?thesis
    using assms sn
    by (auto simp: recv_def truthy_def js_str_def Let_def substr_def substr_from_def s0)
qed

theorem recv_returns_prefix_witness:
  "recv (driver_init\<lparr>socks := [Ready], sockData := [sock_key 0 \<mapsto> ''hello'']\<rparr>) 0 2 =
     (RecvData ''he'', driver_init\<lparr>socks := [Ready], sockData := [sock_key 0 \<mapsto> ''llo'']\<rparr>)"
proof -
  let ?d = "driver_init\<lparr>socks := [Ready], sockData := [sock_key 0 \<mapsto> ''hello'']\<rparr>"
  have h: "sockData ?d (sock_key 0) = Some ''hello''" "''hello'' \<noteq> []" "\<not> at_isBusy ?d"
    "socks_get (socks ?d) 0 \<noteq> Wait" "1 \<le> (2::int)"
    by (simp_all add: driver_init_def socks_get_def)
  from recv_returns_prefix [OF h] show ?thesis by simp
qed

section \<open>C9: a failed \<^verbatim>\<open>send\<close> leaves the socket's state alone\<close>

text \<open>
  Claim C9. When the line \<^verbatim>\<open>SEND FAIL\<close> or \<^verbatim>\<open>ERROR\<close> arrives for a handler that
  \<^verbatim>\<open>send\<close> registered, the handler clears the busy flag, unregisters the three line
  handlers and clears its timer, and the table \<^verbatim>\<open>socks\<close> is what it was before the
  line arrived: the socket is not marked \<^verbatim>\<open>"tobeclosed"\<close>.
\<close>

theorem send_failure_keeps_socket_state:
  assumes "at_lineHandlers d line = Some h"
    and "h = SendFailHandler t sckt \<or> h = ErrorHandler t sckt"
  shows "busy (dispatch_line d line) = False
       \<and> at_lineHandlers (dispatch_line d line) ''SEND OK'' = None
       \<and> at_lineHandlers (dispatch_line d line) ''SEND FAIL'' = None
       \<and> at_lineHandlers (dispatch_line d line) ''ERROR'' = None
       \<and> timers (dispatch_line d line) t = None
       \<and> socks (dispatch_line d line) = socks d"
  using assms
  by (auto simp: dispatch_line_def Let_def clearTimeout_def unregister_send_lines_def unregisterLine_def)

theorem send_failure_keeps_socket_state_witness:
  "busy (snd (send (driver_init\<lparr>socks := [Ready]\<rparr>) 0 ''hi''))
   \<and> busy (dispatch_line (snd (send (driver_init\<lparr>socks := [Ready]\<rparr>) 0 ''hi'')) ''SEND FAIL'') = False
   \<and> socks (dispatch_line (snd (send (driver_init\<lparr>socks := [Ready]\<rparr>) 0 ''hi'')) ''SEND FAIL'') = [Ready]
   \<and> socks (dispatch_line (snd (send (driver_init\<lparr>socks := [Ready]\<rparr>) 0 ''hi'')) ''ERROR'') = [Ready]"
proof -
  let ?d1 = "snd (send (driver_init\<lparr>socks := [Ready]\<rparr>) 0 ''hi'')"
  have reg: "at_lineHandlers ?d1 ''SEND FAIL'' = Some (SendFailHandler 1 0)"
    "at_lineHandlers ?d1 ''ERROR'' = Some (ErrorHandler 1 0)"
    by (simp_all add: send_def driver_init_def socks_get_def emit_def Let_def)
  have st: "busy ?d1" "socks ?d1 = [Ready]"
    by (simp_all add: send_def driver_init_def socks_get_def emit_def Let_def)
  show ?thesis
    using send_failure_keeps_socket_state [OF reg(1), of 1 0]
      send_failure_keeps_socket_state [OF reg(2), of 1 0] st
    by simp
qed

subsection \<open>Runs of \<^verbatim>\<open>init\<close>\<close>

lemmas cb_defs = init_cb_def cb_AT_SYNCHRO_def cb_AT_RSP_FORMAT_def cb_AT_ECHO_OFF_def cb_AT_HW_FLOW_CONTROL_def
  cb_AT_CPIN_def cb_AT_SHOW_SIM_ID_def cb_AT_QUERY_SIGNAL_QUALITY_def cb_AT_PS_ATTACHMENT_def
  cb_AT_AUTOMATIC_OPERATOR_SELECTION_def cb_AT_LIST_CURRENT_OPERATORS_def cb_AT_CURRENT_OPERATOR_def
lemmas run_defs = init_run_def init_start_def init_deliver_def init_def emit_def callback_def Let_def
  truthy_def js_str_def substr_def substr_start_def substring_def clamp_index_def CRLF_def

lemma callbacks_append: "callbacks (xs @ ys) = callbacks xs @ callbacks ys"
  by (induction xs rule: callbacks.induct) auto

lemma callbacks_replicate_AtCmd: "callbacks (replicate n (AtCmd a b c)) = []"
  by (induction n) auto

lemma init_run_snoc: "init_run d (rs @ [r]) = init_deliver (init_run d rs) r"
  by (simp add: init_run_def)

lemma emit_emit: "emit (emit d xs) ys = emit d (xs @ ys)"
  by (simp add: emit_def)

lemma sync_step:
  assumes "init_s v = AT_SYNCHRO" and "r \<noteq> Some ''OK''" and "r \<noteq> Some ''AT''"
  shows "init_deliver \<lparr>vars = v, drv = d, listening = True\<rparr> r =
    (if atSync v < 10
     then \<lparr>vars = v\<lparr>atSync := Suc (atSync v)\<rparr>,
           drv = emit d [AtCmd 500 (''AT'' @ CRLF) 1000], listening = True\<rparr>
     else \<lparr>vars = v\<lparr>atSync := Suc (atSync v)\<rparr>,
           drv = emit d [Callback (Some (''Error in AT sync: '' @ js_str r)) None], listening = False\<rparr>)"
  using assms
  by (cases v) (auto simp: init_deliver_def init_cb_def cb_AT_SYNCHRO_def Let_def emit_def callback_def)

lemma sync_failures_run:
  assumes "\<forall>r\<in>set rs. r \<noteq> Some ''OK'' \<and> r \<noteq> Some ''AT''" and "length rs \<le> 10"
  shows "init_run d rs =
    \<lparr>vars = \<lparr>atSync = length rs, attRetry = 0, init_s = AT_SYNCHRO, signal_quality_report = False\<rparr>,
     drv = emit d (replicate (Suc (length rs)) (AtCmd 500 (''AT'' @ CRLF) 1000)),
     listening = True\<rparr>"
  using assms
proof (induction rs rule: rev_induct)
  case Nil
  show ?case by (simp add: init_run_def init_start_def init_def)
next
  case (snoc r rs)
  then have ih: "init_run d rs =
    \<lparr>vars = \<lparr>atSync = length rs, attRetry = 0, init_s = AT_SYNCHRO, signal_quality_report = False\<rparr>,
     drv = emit d (replicate (Suc (length rs)) (AtCmd 500 (''AT'' @ CRLF) 1000)),
     listening = True\<rparr>" by simp
  from snoc.prems have r: "r \<noteq> Some ''OK''" "r \<noteq> Some ''AT''" and len: "length rs < 10" by auto
  have rep: "replicate (Suc (length rs)) x @ [x] = replicate (Suc (length (rs @ [r]))) x" for x :: effect
    by (simp add: replicate_append_same)
  show ?case
    unfolding init_run_snoc ih
    by (simp add: sync_step r len emit_emit rep del: replicate_Suc replicate.simps)
qed

lemma init_run_ten_failures:
  "init_run driver_init (replicate 10 (Some ''ERROR'')) =
    \<lparr>vars = \<lparr>atSync = 10, attRetry = 0, init_s = AT_SYNCHRO, signal_quality_report = False\<rparr>,
     drv = emit driver_init (replicate 11 (AtCmd 500 (''AT'' @ CRLF) 1000)),
     listening = True\<rparr>"
  using sync_failures_run [of "replicate 10 (Some ''ERROR'')" driver_init] by simp

lemma probes_replicate:
  "probes (replicate n x) = (if x = AtCmd 500 (''AT'' @ CRLF) 1000 then n else 0)"
  by (simp add: probes_def)

section \<open>C1: the synchronisation probes\<close>

text \<open>
  Claim C1 says that after exactly 10 consecutive failed probes the completion callback
  gets an error and no 11th probe is handed to the engine; the comment above the first
  probe in \<^verbatim>\<open>init\<close> says the same (\<^verbatim>\<open>if no OK return after sending AT 10 times, SYNC
  fail\<close>). The test in the code is \<^verbatim>\<open>atSync <= 10\<close>: after ten probes answered
  \<^verbatim>\<open>ERROR\<close> the callback has not been called, eleven probes have been handed to the
  engine and the handler waits for the answer to the eleventh.
\<close>

theorem init_sync_eleventh_probe:
  "callbacks (trace (drv (init_run driver_init (replicate 10 (Some ''ERROR''))))) = []
   \<and> probes (trace (drv (init_run driver_init (replicate 10 (Some ''ERROR''))))) = 11
   \<and> listening (init_run driver_init (replicate 10 (Some ''ERROR'')))"
  unfolding init_run_ten_failures
  by (simp add: emit_def driver_init_def callbacks_replicate_AtCmd probes_replicate
      del: replicate_Suc replicate.simps)

text \<open>The error is reported after the eleventh failure; no twelfth probe follows.\<close>

lemma init_sync_eleventh_failure:
  "callbacks (trace (drv (init_deliver (init_run driver_init (replicate 10 (Some ''ERROR''))) (Some ''ERROR'')))) =
     [Some ''Error in AT sync: ERROR'']
   \<and> probes (trace (drv (init_deliver (init_run driver_init (replicate 10 (Some ''ERROR''))) (Some ''ERROR'')))) = 11
   \<and> \<not> listening (init_deliver (init_run driver_init (replicate 10 (Some ''ERROR''))) (Some ''ERROR''))"
  unfolding init_run_ten_failures
  by (simp add: sync_step emit_emit)
     (simp add: emit_def driver_init_def callbacks_append callbacks_replicate_AtCmd probes_def js_str_def
      del: replicate_Suc replicate.simps)

section \<open>C8: packet-service attach after four failed attempts\<close>

text \<open>
  What the state \<open>AT_PS_ATTACHMENT\<close> does when every failed attempt is answered by a
  line. From that state with no failure counted yet: when the first attach attempt is
  answered by a non-empty line other than \<^verbatim>\<open>OK\<close> (\<open>e1\<close>), automatic operator
  selection runs (its response \<open>x\<close> and the response \<open>y\<close> to the operator query are
  not inspected), and the next three attach attempts, the blind retry after 30 s and the
  retries after 4 s and 6 s, are answered in the same way (\<open>e2\<close>, \<open>e3\<close>, \<open>e4\<close>), the
  completion callback is called with \<^verbatim>\<open>Unrecoverable Error, PS attachment failed: \<close>
  followed by the last response. It is called once: the handler is no longer
  registered, no further command is scheduled, and whatever arrives later changes
  nothing.
\<close>

theorem ps_attach_unrecoverable:
  assumes "init_s (vars st) = AT_PS_ATTACHMENT" and "attRetry (vars st) = 0" and "listening st"
    and "attach_failure e1" and "attach_failure e2" and "attach_failure e3" and "attach_failure e4"
  shows "trace (drv (foldl init_deliver st [e1, x, y, e2, e3, e4])) =
           trace (drv st) @
           [AtCmd 2000 (''AT+COPS=0'' @ CRLF) 180000,
            AtCmd 5000 (''AT+COPS?'' @ CRLF) 10000,
            AtCmd 30000 (''AT+CGATT=1'' @ CRLF) 30000,
            AtCmd 4000 (''AT+CGATT=1'' @ CRLF) 75000,
            AtCmd 6000 (''AT+CGATT=1'' @ CRLF) 75000,
            Callback (Some (''Unrecoverable Error, PS attachment failed: '' @ js_str e4)) None]
       \<and> \<not> listening (foldl init_deliver st [e1, x, y, e2, e3, e4])
       \<and> (\<forall>more. foldl init_deliver (foldl init_deliver st [e1, x, y, e2, e3, e4]) more =
                  foldl init_deliver st [e1, x, y, e2, e3, e4])"
proof -
  have stop: "foldl init_deliver s more = s" if "\<not> listening s" for s more
    using that by (induction more) (simp_all add: init_deliver_def)
  obtain v d where st: "st = \<lparr>vars = v, drv = d, listening = True\<rparr>"
    using assms(3) by (cases st) auto
  have v: "init_s v = AT_PS_ATTACHMENT" "attRetry v = 0" using assms(1,2) st by auto
  have s1: "init_deliver st e1 =
      \<lparr>vars = v\<lparr>attRetry := 1, init_s := AT_AUTOMATIC_OPERATOR_SELECTION\<rparr>,
       drv = emit d [AtCmd 2000 (''AT+COPS=0'' @ CRLF) 180000], listening = True\<rparr>"
    using assms(4) v
    by (simp add: st init_deliver_def init_cb_def cb_AT_PS_ATTACHMENT_def attach_failure_def Let_def emit_def)
  have s2: "init_deliver (init_deliver st e1) x =
      \<lparr>vars = v\<lparr>attRetry := 1, init_s := AT_LIST_CURRENT_OPERATORS\<rparr>,
       drv = emit d [AtCmd 2000 (''AT+COPS=0'' @ CRLF) 180000, AtCmd 5000 (''AT+COPS?'' @ CRLF) 10000],
       listening = True\<rparr>"
    unfolding s1
    by (simp add: init_deliver_def init_cb_def cb_AT_AUTOMATIC_OPERATOR_SELECTION_def emit_def)
  have s3: "init_deliver (init_deliver (init_deliver st e1) x) y =
      \<lparr>vars = v\<lparr>attRetry := 1, init_s := AT_PS_ATTACHMENT\<rparr>,
       drv = emit d [AtCmd 2000 (''AT+COPS=0'' @ CRLF) 180000, AtCmd 5000 (''AT+COPS?'' @ CRLF) 10000,
                     AtCmd 30000 (''AT+CGATT=1'' @ CRLF) 30000],
       listening = True\<rparr>"
    unfolding s2
    by (simp add: init_deliver_def init_cb_def cb_AT_LIST_CURRENT_OPERATORS_def emit_def)
  have s4: "init_deliver (init_deliver (init_deliver (init_deliver st e1) x) y) e2 =
      \<lparr>vars = v\<lparr>attRetry := 2, init_s := AT_PS_ATTACHMENT\<rparr>,
       drv = emit d [AtCmd 2000 (''AT+COPS=0'' @ CRLF) 180000, AtCmd 5000 (''AT+COPS?'' @ CRLF) 10000,
                     AtCmd 30000 (''AT+CGATT=1'' @ CRLF) 30000, AtCmd 4000 (''AT+CGATT=1'' @ CRLF) 75000],
       listening = True\<rparr>"
    unfolding s3 using assms(5)
    by (simp add: init_deliver_def init_cb_def cb_AT_PS_ATTACHMENT_def attach_failure_def Let_def emit_def)
  have s5: "init_deliver (init_deliver (init_deliver (init_deliver (init_deliver st e1) x) y) e2) e3 =
      \<lparr>vars = v\<lparr>attRetry := 3, init_s := AT_PS_ATTACHMENT\<rparr>,
       drv = emit d [AtCmd 2000 (''AT+COPS=0'' @ CRLF) 180000, AtCmd 5000 (''AT+COPS?'' @ CRLF) 10000,
                     AtCmd 30000 (''AT+CGATT=1'' @ CRLF) 30000, AtCmd 4000 (''AT+CGATT=1'' @ CRLF) 75000,
                     AtCmd 6000 (''AT+CGATT=1'' @ CRLF) 75000],
       listening = True\<rparr>"
    unfolding s4 using assms(6)
    by (simp add: init_deliver_def init_cb_def cb_AT_PS_ATTACHMENT_def attach_failure_def Let_def emit_def)
  have s6: "init_deliver (init_deliver (init_deliver (init_deliver (init_deliver (init_deliver st e1) x) y) e2) e3) e4 =
      \<lparr>vars = v\<lparr>attRetry := 4, init_s := AT_PS_ATTACHMENT\<rparr>,
       drv = emit d [AtCmd 2000 (''AT+COPS=0'' @ CRLF) 180000, AtCmd 5000 (''AT+COPS?'' @ CRLF) 10000,
                     AtCmd 30000 (''AT+CGATT=1'' @ CRLF) 30000, AtCmd 4000 (''AT+CGATT=1'' @ CRLF) 75000,
                     AtCmd 6000 (''AT+CGATT=1'' @ CRLF) 75000,
                     Callback (Some (''Unrecoverable Error, PS attachment failed: '' @ js_str e4)) None],
       listening = False\<rparr>"
    unfolding s5 using assms(7)
    by (simp add: init_deliver_def init_cb_def cb_AT_PS_ATTACHMENT_def attach_failure_def Let_def emit_def
        callback_def)
  have fin: "foldl init_deliver st [e1, x, y, e2, e3, e4] =
      \<lparr>vars = v\<lparr>attRetry := 4, init_s := AT_PS_ATTACHMENT\<rparr>,
       drv = emit d [AtCmd 2000 (''AT+COPS=0'' @ CRLF) 180000, AtCmd 5000 (''AT+COPS?'' @ CRLF) 10000,
                     AtCmd 30000 (''AT+CGATT=1'' @ CRLF) 30000, AtCmd 4000 (''AT+CGATT=1'' @ CRLF) 75000,
                     AtCmd 6000 (''AT+CGATT=1'' @ CRLF) 75000,
                     Callback (Some (''Unrecoverable Error, PS attachment failed: '' @ js_str e4)) None],
       listening = False\<rparr>"
    using s6 by simp
  show ?thesis
    unfolding fin by (simp add: stop emit_def st)
qed

theorem ps_attach_unrecoverable_witness:
  "callbacks (trace (drv (foldl init_deliver
      (init_run driver_init
         [Some ''OK'', Some ''OK'', Some ''OK'', Some ''+CPIN: READY'', Some ''OK'',
          Some ''+QCCID: 89445011223344556677'', Some ''OK'', Some ''+CSQ: 20,99'', Some ''OK''])
      [Some ''ERROR'', Some ''OK'', Some ''+COPS: 0'', Some ''ERROR'', Some ''ERROR'',
       Some ''+CME ERROR: 30'']))) =
     [Some ''Unrecoverable Error, PS attachment failed: +CME ERROR: 30'']
   \<and> \<not> listening (foldl init_deliver
      (init_run driver_init
         [Some ''OK'', Some ''OK'', Some ''OK'', Some ''+CPIN: READY'', Some ''OK'',
          Some ''+QCCID: 89445011223344556677'', Some ''OK'', Some ''+CSQ: 20,99'', Some ''OK''])
      [Some ''ERROR'', Some ''OK'', Some ''+COPS: 0'', Some ''ERROR'', Some ''ERROR'',
       Some ''+CME ERROR: 30''])"
proof -
  let ?st = "init_run driver_init
         [Some ''OK'', Some ''OK'', Some ''OK'', Some ''+CPIN: READY'', Some ''OK'',
          Some ''+QCCID: 89445011223344556677'', Some ''OK'', Some ''+CSQ: 20,99'', Some ''OK'']"
  have reach: "init_s (vars ?st) = AT_PS_ATTACHMENT" "attRetry (vars ?st) = 0" "listening ?st"
    "callbacks (trace (drv ?st)) = []"
    by (simp_all add: cb_defs run_defs driver_init_def)
  have f: "attach_failure (Some ''ERROR'')" "attach_failure (Some ''+CME ERROR: 30'')"
    by (simp_all add: attach_failure_def truthy_def)
  note t = ps_attach_unrecoverable [OF reach(1,2,3) f(1) f(1) f(1) f(2), of "Some ''OK''" "Some ''+COPS: 0''"]
  show ?thesis
    using t reach(4) by (simp add: callbacks_append js_str_def)
qed

text \<open>A timeout of the attach command is not handled: the handler does nothing at all.\<close>

lemma ps_attach_timeout_silent:
  "init_s v = AT_PS_ATTACHMENT \<Longrightarrow> init_cb v d None = (Return_undefined, v, d)"
  by (simp add: init_cb_def cb_AT_PS_ATTACHMENT_def truthy_def)

text \<open>
  Claim C8 says that in the state PsAttach, when the first attach attempt fails,
  automatic operator selection is performed and the three further attach attempts fail
  too, the completion callback is called with the "unrecoverable" error, once, and no
  further attach command is scheduled. Every \<^verbatim>\<open>AT+CGATT=1\<close> is given a timeout (75 s,
  30 s for the blind retry), and every other state of \<^verbatim>\<open>init\<close> that waits for a
  response has a branch for \<^verbatim>\<open>r===undefined\<close>; the case \<open>AT_PS_ATTACHMENT\<close> has none.
  In the run below \<^verbatim>\<open>init\<close> reaches the attach; the first attempt and the next two
  are answered \<^verbatim>\<open>ERROR\<close> and the last attempt times out. All four attach commands
  have been handed to the engine, the callback has not been called, and the handler is
  no longer registered: the failure is never reported.
\<close>

theorem ps_attach_last_attempt_times_out:
  "trace (drv (init_run driver_init
      [Some ''OK'', Some ''OK'', Some ''OK'', Some ''+CPIN: READY'', Some ''OK'',
       Some ''+QCCID: 89445011223344556677'', Some ''OK'', Some ''+CSQ: 20,99'', Some ''OK'',
       Some ''ERROR'', Some ''OK'', Some ''+COPS: 0'', Some ''ERROR'', Some ''ERROR'', None])) =
     [AtCmd 500 (''AT'' @ CRLF) 1000, AtCmd 0 (''ATV1'' @ CRLF) 1000, AtCmd 0 (''ATE0'' @ CRLF) 1000,
      AtCmd 0 (''AT+CPIN?'' @ CRLF) 5000, AtCmd 0 (''AT+QCCID'' @ CRLF) 2000,
      AtCmd 0 (''AT+CSQ'' @ CRLF) 2000,
      AtCmd 5000 (''AT+CGATT=1'' @ CRLF) 75000,
      AtCmd 2000 (''AT+COPS=0'' @ CRLF) 180000,
      AtCmd 5000 (''AT+COPS?'' @ CRLF) 10000,
      AtCmd 30000 (''AT+CGATT=1'' @ CRLF) 30000,
      AtCmd 4000 (''AT+CGATT=1'' @ CRLF) 75000,
      AtCmd 6000 (''AT+CGATT=1'' @ CRLF) 75000]
   \<and> callbacks (trace (drv (init_run driver_init
      [Some ''OK'', Some ''OK'', Some ''OK'', Some ''+CPIN: READY'', Some ''OK'',
       Some ''+QCCID: 89445011223344556677'', Some ''OK'', Some ''+CSQ: 20,99'', Some ''OK'',
       Some ''ERROR'', Some ''OK'', Some ''+COPS: 0'', Some ''ERROR'', Some ''ERROR'', None]))) = []
   \<and> \<not> listening (init_run driver_init
      [Some ''OK'', Some ''OK'', Some ''OK'', Some ''+CPIN: READY'', Some ''OK'',
       Some ''+QCCID: 89445011223344556677'', Some ''OK'', Some ''+CSQ: 20,99'', Some ''OK'',
       Some ''ERROR'', Some ''OK'', Some ''+COPS: 0'', Some ''ERROR'', Some ''ERROR'', None])"
  by (simp add: cb_defs run_defs driver_init_def)

section \<open>C5: stopping geolocation\<close>

lemma geoLoc_cb_stopped:
  "\<not> geoPos d \<Longrightarrow> trace (snd (geoLoc_cb period d r)) = trace d \<and> \<not> geoPos (snd (geoLoc_cb period d r))"
  by (simp add: geoLoc_cb_def geoLoc_next_def)

lemma geoLoc_deliver_all_stopped:
  "\<not> geoPos d \<Longrightarrow>
     trace (geoLoc_deliver_all period d rs) = trace d \<and> \<not> geoPos (geoLoc_deliver_all period d rs)"
proof (induction rs arbitrary: d)
  case Nil
  then show ?case by (simp add: geoLoc_deliver_all_def)
next
  case (Cons r rs)
  from geoLoc_cb_stopped [OF Cons.prems, of period r]
  have a: "trace (snd (geoLoc_cb period d r)) = trace d" and b: "\<not> geoPos (snd (geoLoc_cb period d r))"
    by auto
  from Cons.IH [OF b] a show ?case by (simp add: geoLoc_deliver_all_def)
qed

lemma geoLoc_cb_longlat:
  "longlat (snd (geoLoc_cb period d r)) =
     (if r = None then []
      else if r = Some ''OK'' then longlat d
      else if truthy r \<and> substr (js_str r) 0 10 = ''+QCELLLOC:''
      then substring (js_str r) (1 + indexOf (js_str r) '' '') (int (length (js_str r)))
      else [])"
  by (simp add: geoLoc_cb_def geoLoc_next_def emit_def)

lemma geoLoc_deliver_all_snoc:
  "geoLoc_deliver_all period d (rs @ [r]) = snd (geoLoc_cb period (geoLoc_deliver_all period d rs) r)"
  by (simp add: geoLoc_deliver_all_def)

lemma geoLoc_no_fix_stays_empty:
  "longlat d = [] \<Longrightarrow>
   list_all (\<lambda>r. \<not> (truthy r \<and> substr (js_str r) 0 10 = ''+QCELLLOC:'')) rs \<Longrightarrow>
   longlat (geoLoc_deliver_all period d rs) = []"
proof (induction rs rule: rev_induct)
  case Nil
  then show ?case by (simp add: geoLoc_deliver_all_def)
next
  case (snoc r rs)
  then show ?case by (auto simp: geoLoc_deliver_all_snoc geoLoc_cb_longlat)
qed

text \<open>
  Claim C5 says that after \<^verbatim>\<open>geoLocStop()\<close> the cached position is empty and stays
  empty even when the poll that was in flight delivers a well-formed \<^verbatim>\<open>+QCELLLOC\<close>
  response, and that no further poll is scheduled. The handler of the poll stores the
  fix without looking at \<^verbatim>\<open>geoPos\<close>, which only guards the rescheduling.
  Claim C5 as amended: \<^verbatim>\<open>geoLocStop()\<close> empties the cached position and clears
  \<^verbatim>\<open>geoPos\<close>; whatever responses arrive afterwards, no further poll is scheduled and
  \<^verbatim>\<open>geoPos\<close> stays cleared. The position stays empty as long as no \<^verbatim>\<open>+QCELLLOC:\<close>
  response arrives. After each late response the position is: empty after a timeout;
  what it was after \<^verbatim>\<open>OK\<close>; the fix (the text after the first space) after a
  \<^verbatim>\<open>+QCELLLOC:\<close> response; empty after any other line. So a fix that arrives after
  the stop is cached and a following \<^verbatim>\<open>OK\<close> leaves it there.
\<close>

theorem geoLocStop_clears_and_stops_polling:
  "longlat (geoLocStop d) = [] \<and> \<not> geoPos (geoLocStop d)
   \<and> trace (geoLoc_deliver_all period (geoLocStop d) rs) = trace d
   \<and> \<not> geoPos (geoLoc_deliver_all period (geoLocStop d) rs)
   \<and> (list_all (\<lambda>r. \<not> (truthy r \<and> substr (js_str r) 0 10 = ''+QCELLLOC:'')) rs \<longrightarrow>
        longlat (geoLoc_deliver_all period (geoLocStop d) rs) = [])
   \<and> longlat (geoLoc_deliver_all period (geoLocStop d) (rs @ [r])) =
       (if r = None then []
        else if r = Some ''OK'' then longlat (geoLoc_deliver_all period (geoLocStop d) rs)
        else if truthy r \<and> substr (js_str r) 0 10 = ''+QCELLLOC:''
        then substring (js_str r) (1 + indexOf (js_str r) '' '') (int (length (js_str r)))
        else [])"
proof -
  have s: "\<not> geoPos (geoLocStop d)" "trace (geoLocStop d) = trace d" "longlat (geoLocStop d) = []"
    by (simp_all add: geoLocStop_def)
  show ?thesis
    using geoLoc_deliver_all_stopped [OF s(1), of period rs] s
      geoLoc_no_fix_stays_empty [OF s(3), of rs period]
    by (simp add: geoLoc_deliver_all_snoc geoLoc_cb_longlat)
qed

theorem geoLocStop_clears_and_stops_polling_witness:
  "longlat (geoLoc_deliver_all 10000 (geoLocStop (geoLocStart driver_init 10000))
      [None, Some ''OK'', Some ''ERROR'']) = []
   \<and> longlat (geoLoc_deliver_all 10000 (geoLocStop (geoLocStart driver_init 10000))
      [Some ''+QCELLLOC: 2.35,48.85'', Some ''OK'']) = ''2.35,48.85''
   \<and> trace (geoLoc_deliver_all 10000 (geoLocStop (geoLocStart driver_init 10000))
      [Some ''+QCELLLOC: 2.35,48.85'', Some ''OK'']) = trace (geoLocStart driver_init 10000)"
proof -
  let ?d = "geoLocStart driver_init 10000"
  let ?fix = "Some ''+QCELLLOC: 2.35,48.85''"
  have h: "list_all (\<lambda>r. \<not> (truthy r \<and> substr (js_str r) 0 10 = ''+QCELLLOC:''))
      [None, Some ''OK'', Some ''ERROR'']"
    by (simp add: truthy_def js_str_def substr_def substr_start_def)
  have f: "truthy ?fix \<and> substr (js_str ?fix) 0 10 = ''+QCELLLOC:''"
    by (simp add: truthy_def js_str_def substr_def substr_start_def)
  have v: "substring (js_str ?fix) (1 + indexOf (js_str ?fix) '' '') (int (length (js_str ?fix))) = ''2.35,48.85''"
    by (simp add: js_str_def substring_def clamp_index_def indexOf_def Let_def)
  note t1 = geoLocStop_clears_and_stops_polling [of ?d 10000 "[None, Some ''OK'', Some ''ERROR'']" None]
  note t2 = geoLocStop_clears_and_stops_polling [of ?d 10000 "[]" ?fix]
  note t3 = geoLocStop_clears_and_stops_polling [of ?d 10000 "[?fix]" "Some ''OK''"]
  note t4 = geoLocStop_clears_and_stops_polling [of ?d 10000 "[?fix, Some ''OK'']" None]
  from t1 h have a: "longlat (geoLoc_deliver_all 10000 (geoLocStop ?d) [None, Some ''OK'', Some ''ERROR'']) = []"
    by blast
  from t2 f v have b: "longlat (geoLoc_deliver_all 10000 (geoLocStop ?d) [?fix]) = ''2.35,48.85''"
    by simp
  from t3 b have c: "longlat (geoLoc_deliver_all 10000 (geoLocStop ?d) [?fix, Some ''OK'']) = ''2.35,48.85''"
    by simp
  from t4 have e: "trace (geoLoc_deliver_all 10000 (geoLocStop ?d) [?fix, Some ''OK'']) = trace ?d"
    by blast
  show ?thesis using a c e by blast
qed

text \<open>A fix that arrives after the stop is cached.\<close>

theorem geoLocStop_late_fix_overwrites:
  "longlat (geoLocStop (geoLocStart driver_init 10000)) = []
   \<and> longlat (snd (geoLoc_cb 10000 (geoLocStop (geoLocStart driver_init 10000))
                 (Some ''+QCELLLOC: 2.35,48.85''))) = ''2.35,48.85''"
  by (simp add: geoLoc_cb_def geoLocStop_def geoLocStart_def truthy_def js_str_def substr_def substr_start_def
      substring_def clamp_index_def indexOf_def Let_def)

section \<open>C6: how often the completion callback is called\<close>

















lemma connect_stop: "\<not> conn_listening st \<Longrightarrow> foldl connect_deliver st later = st"
  by (induction later) (simp_all add: connect_deliver_def)



lemma connect_config_timeout_silent:
  "callbacks (trace (conn_drv (connect_run d apn username password (None # later)))) = callbacks (trace d)"
proof -
  have "connect_deliver (connect_start d apn username password) None =
      \<lparr>conn_s = 0, conn_drv = snd (connect d apn username password), conn_listening = False\<rparr>"
    by (simp add: connect_deliver_def connect_start_def connect_def connect_cb_def emit_def truthy_def)
  then show ?thesis
    by (simp add: connect_run_def connect_stop connect_def emit_def callbacks_append)
qed




end
